theory Spec2Isabelle
  imports Complex_Main
begin

section \<open>Python strings\<close>

text \<open>
  A Python \<open>str\<close> is modelled as a \<open>string\<close>, a list of 8-bit characters, each read as
  the code point of its number. The model of the string methods is that of ASCII
  strings, those for which \<open>str.isascii\<close> holds: on them \<open>str.upper\<close> maps \<open>a..z\<close> to
  \<open>A..Z\<close>, \<open>str.lower\<close> maps \<open>A..Z\<close> to \<open>a..z\<close>, both leave every other character alone,
  and \<open>str.strip()\<close> removes the leading and trailing characters for which
  \<open>str.isspace\<close> holds, the code points 9 to 13, 28 to 31 and 32. Beyond ASCII the
  methods of Python do more (\<open>str.upper\<close> can lengthen a string, \<open>str.strip\<close> removes the
  code points 133 and 160 and others) and the definitions below do not follow them:
  what is stated of a string that these definitions transform is stated of an ASCII
  string.
\<close>

definition isascii :: "string \<Rightarrow> bool" where
  "isascii s = (\<forall>c \<in> set s. (of_char c :: nat) < 128)"

definition upper_char :: "char \<Rightarrow> char" where
  "upper_char c =
     (let n = (of_char c :: nat) in if 97 \<le> n \<and> n \<le> 122 then char_of (n - 32) else c)"

definition lower_char :: "char \<Rightarrow> char" where
  "lower_char c =
     (let n = (of_char c :: nat) in if 65 \<le> n \<and> n \<le> 90 then char_of (n + 32) else c)"

definition str_upper :: "string \<Rightarrow> string" where
  "str_upper s = map upper_char s"

definition str_lower :: "string \<Rightarrow> string" where
  "str_lower s = map lower_char s"

text \<open>\<open>s.replace(old, new)\<close> for one-character \<open>old\<close> and \<open>new\<close>.\<close>

definition str_replace :: "char \<Rightarrow> char \<Rightarrow> string \<Rightarrow> string" where
  "str_replace old new s = map (\<lambda>c. if c = old then new else c) s"

definition isspace :: "char \<Rightarrow> bool" where
  "isspace c =
     (let n = (of_char c :: nat) in (9 \<le> n \<and> n \<le> 13) \<or> (28 \<le> n \<and> n \<le> 32))"

definition str_strip :: "string \<Rightarrow> string" where
  "str_strip s = rev (dropWhile isspace (rev (dropWhile isspace s)))"

section \<open>The symbol normalizer\<close>

text \<open>
  \<^verbatim>\<open>
  def normalize_symbol(s: str) -> str:
      if '/' in s:
          return s
      return s.replace('_', '/').upper()
  \<close>
\<close>

definition normalize_symbol :: "string \<Rightarrow> string" where
  "normalize_symbol s =
     (if CHR ''/'' \<in> set s then s
      else str_upper (str_replace (CHR ''_'') (CHR ''/'') s))"

section \<open>Exceptions, orders and the exchange collaborator\<close>

text \<open>
  The exceptions the code can see, all of them subclasses of Python's \<open>Exception\<close>:
  the \<open>ValueError\<close>s the submitter raises itself, the \<open>ValueError\<close> and the
  \<open>OverflowError\<close> of \<open>time.sleep\<close>, the \<open>KeyError\<close> of \<open>order['id']\<close>, the \<open>TypeError\<close> of
  \<open>raise None\<close>, and whatever the exchange client raises, with its message.
\<close>

datatype exn =
    ValueError string
  | KeyError string
  | TypeError string
  | OverflowError string
  | ExchangeError string

text \<open>\<open>str(e)\<close>: the message; for a \<open>KeyError\<close> the quoted key.\<close>

fun str_exn :: "exn \<Rightarrow> string" where
  "str_exn (ValueError m) = m"
| "str_exn (KeyError k) = CHR 0x27 # k @ [CHR 0x27]"
| "str_exn (TypeError m) = m"
| "str_exn (OverflowError m) = m"
| "str_exn (ExchangeError m) = m"

datatype pyval = PyNone | PyStr string | PyFloat real | PyInt int

text \<open>
  An order is the dict the exchange client returns, as an association list in which the
  first binding of a key is the dict's. \<open>order.get(k)\<close> is \<open>None\<close> on a missing key,
  \<open>order[k]\<close> raises \<open>KeyError\<close>.
\<close>

type_synonym order = "(string \<times> pyval) list"

definition dict_get :: "order \<Rightarrow> string \<Rightarrow> pyval" where
  "dict_get d k = (case map_of d k of None \<Rightarrow> PyNone | Some v \<Rightarrow> v)"

definition dict_item :: "order \<Rightarrow> string \<Rightarrow> exn + pyval" where
  "dict_item d k = (case map_of d k of None \<Rightarrow> Inl (KeyError k) | Some v \<Rightarrow> Inr v)"

text \<open>The six methods of the exchange client that the code calls, with their arguments.\<close>

datatype call =
    Load_markets
  | Create_market_buy_order string real
  | Create_market_sell_order string real
  | Create_limit_buy_order string real real
  | Create_limit_sell_order string real real
  | Fetch_order pyval string

text \<open>
  The exchange is an opaque stateful collaborator: a call in a state either raises or
  returns a dict, and leaves a new state. (What \<open>load_markets\<close> returns is discarded by
  the code.)
\<close>

type_synonym 'st exchange = "call \<Rightarrow> 'st \<Rightarrow> (exn + order) \<times> 'st"

text \<open>What an observer of a run sees, in order: exchange calls, prints and sleeps.\<close>

datatype event =
    Called call
  | Slept int
  | Print_placing string real string string "real option"
  | Print_failed int exn

record config =
  MAX_RETRIES :: int
  RETRY_DELAY :: int

definition call_exchange :: "'st exchange \<Rightarrow> call \<Rightarrow> 'st \<Rightarrow> (exn + order) \<times> 'st \<times> event list" where
  "call_exchange ex c s = (case ex c s of (r, s') \<Rightarrow> (r, s', [Called c]))"

text \<open>
  \<open>time.sleep(d)\<close> for an \<open>int\<close> \<open>d\<close>. The delay is first converted to nanoseconds in a
  signed 64-bit integer, which raises \<open>OverflowError\<close> (here with the message of
  CPython 3.11) when \<open>d\<close> is beyond 9223372036 seconds either way; a negative delay
  then raises \<open>ValueError\<close>; otherwise the process sleeps. (The sleep call of the
  platform can refuse a delay below 9223372036 seconds with an \<open>OSError\<close>; where it
  does depends on the platform and on its clock, and is not modelled.
  \<open>portable_delay\<close> below is a range in which no platform refuses, and what is stated
  of a run that sleeps is stated for a delay in that range.)
\<close>

definition time_sleep :: "int \<Rightarrow> (exn + unit) \<times> event list" where
  "time_sleep d =
     (if d < - 9223372036 \<or> 9223372036 < d then
        (Inl (OverflowError ''timestamp too large to convert to C _PyTime_t''), [])
      else if d < 0 then (Inl (ValueError ''sleep length must be non-negative''), [])
      else (Inr (), [Slept d]))"

text \<open>
  A portable delay: not negative, and at most 4294967 seconds, which is below the limit
  of every platform's sleep call, so that \<open>time.sleep\<close> sleeps.
\<close>

definition portable_delay :: "int \<Rightarrow> bool" where
  "portable_delay d = (0 \<le> d \<and> d \<le> 4294967)"

section \<open>The order submitter\<close>

text \<open>
  Lines 85 to 98 of \<open>place_order_with_retry\<close>: the dispatch on \<open>order_type\<close> and \<open>side\<close>.
  \<^verbatim>\<open>
  if order_type == 'market':
      if side == 'buy':
          order = exchange.create_market_buy_order(symbol, amount)
      else:
          order = exchange.create_market_sell_order(symbol, amount)
  elif order_type == 'limit':
      if price is None:
          raise ValueError('Missing price for limit order')
      if side == 'buy':
          order = exchange.create_limit_buy_order(symbol, amount, price)
      else:
          order = exchange.create_limit_sell_order(symbol, amount, price)
  else:
      raise ValueError('Unsupported order type')
  \<close>
\<close>

definition create_order ::
  "'st exchange \<Rightarrow> string \<Rightarrow> string \<Rightarrow> real \<Rightarrow> string \<Rightarrow> real option \<Rightarrow> 'st
     \<Rightarrow> (exn + order) \<times> 'st \<times> event list" where
  "create_order ex symb side amount otype pr s =
     (if otype = ''market'' then
        (if side = ''buy'' then call_exchange ex (Create_market_buy_order symb amount) s
         else call_exchange ex (Create_market_sell_order symb amount) s)
      else if otype = ''limit'' then
        (case pr of
           None \<Rightarrow> (Inl (ValueError ''Missing price for limit order''), s, [])
         | Some p \<Rightarrow>
             (if side = ''buy'' then call_exchange ex (Create_limit_buy_order symb amount p) s
              else call_exchange ex (Create_limit_sell_order symb amount p) s))
      else (Inl (ValueError ''Unsupported order type''), s, []))"

text \<open>
  Lines 101 to 103: the follow-up fetch.
  \<^verbatim>\<open>
  if order.get('status') in ('open', 'partial'):
      order = exchange.fetch_order(order['id'], symbol)
  return order
  \<close>
\<close>

definition status_open_or_partial :: "order \<Rightarrow> bool" where
  "status_open_or_partial order =
     (dict_get order ''status'' = PyStr ''open'' \<or> dict_get order ''status'' = PyStr ''partial'')"

definition check_partial_fill ::
  "'st exchange \<Rightarrow> string \<Rightarrow> order \<Rightarrow> 'st \<Rightarrow> (exn + order) \<times> 'st \<times> event list" where
  "check_partial_fill ex symb order s =
     (if status_open_or_partial order then
        (case dict_item order ''id'' of
           Inl e \<Rightarrow> (Inl e, s, [])
         | Inr i \<Rightarrow> call_exchange ex (Fetch_order i symb) s)
      else (Inr order, s, []))"

text \<open>
  The body of the \<open>try\<close> (lines 84 to 103), one attempt: \<open>Inl e\<close> when it raises \<open>e\<close>,
  \<open>Inr order\<close> when it returns.
\<close>

definition try_body ::
  "'st exchange \<Rightarrow> string \<Rightarrow> string \<Rightarrow> real \<Rightarrow> string \<Rightarrow> real option \<Rightarrow> 'st
     \<Rightarrow> (exn + order) \<times> 'st \<times> event list" where
  "try_body ex symb side amount otype pr s =
     (case call_exchange ex Load_markets s of
        (Inl e, s1, ev1) \<Rightarrow> (Inl e, s1, ev1)
      | (Inr _, s1, ev1) \<Rightarrow>
          (case create_order ex symb side amount otype pr s1 of
             (Inl e, s2, ev2) \<Rightarrow> (Inl e, s2, ev1 @ ev2)
           | (Inr order, s2, ev2) \<Rightarrow>
               (case check_partial_fill ex symb order s2 of
                  (r, s3, ev3) \<Rightarrow> (r, s3, ev1 @ ev2 @ ev3))))"

text \<open>
  The loop \<open>for attempt in range(1, MAX_RETRIES + 1)\<close> with its \<open>except Exception\<close>
  handler, and the \<open>raise last_exception\<close> after it. An exception raised inside the
  handler (by \<open>time.sleep\<close>) leaves the function at once. \<open>raise None\<close>, reached when the
  loop body never ran, is a \<open>TypeError\<close>.
\<close>

function retry_loop ::
  "config \<Rightarrow> 'st exchange \<Rightarrow> string \<Rightarrow> string \<Rightarrow> real \<Rightarrow> string \<Rightarrow> real option
     \<Rightarrow> int \<Rightarrow> exn option \<Rightarrow> 'st \<Rightarrow> (exn + order) \<times> 'st \<times> event list" where
  "retry_loop cfg ex symb side amount otype pr attempt last_exception s =
     (if attempt \<le> MAX_RETRIES cfg then
        (case try_body ex symb side amount otype pr s of
           (Inr order, s1, ev) \<Rightarrow> (Inr order, s1, ev)
         | (Inl e, s1, ev) \<Rightarrow>
             (if attempt < MAX_RETRIES cfg then
                (case time_sleep (RETRY_DELAY cfg) of
                   (Inl e', ev') \<Rightarrow> (Inl e', s1, ev @ [Print_failed attempt e] @ ev')
                 | (Inr _, ev') \<Rightarrow>
                     (case retry_loop cfg ex symb side amount otype pr (attempt + 1) (Some e) s1 of
                        (r, s2, ev2) \<Rightarrow> (r, s2, ev @ [Print_failed attempt e] @ ev' @ ev2)))
              else
                (case retry_loop cfg ex symb side amount otype pr (attempt + 1) (Some e) s1 of
                   (r, s2, ev2) \<Rightarrow> (r, s2, ev @ [Print_failed attempt e] @ ev2))))
      else
        (case last_exception of
           None \<Rightarrow> (Inl (TypeError ''exceptions must derive from BaseException''), s, [])
         | Some e \<Rightarrow> (Inl e, s, [])))"
  by pat_completeness auto
termination
  by (relation "measure (\<lambda>(cfg, ex, symb, side, amount, otype, pr, attempt, last_exception, s).
        nat (MAX_RETRIES cfg + 1 - attempt))") auto

definition place_order_with_retry ::
  "config \<Rightarrow> 'st exchange \<Rightarrow> string \<Rightarrow> string \<Rightarrow> real \<Rightarrow> string \<Rightarrow> real option \<Rightarrow> 'st
     \<Rightarrow> (exn + order) \<times> 'st \<times> event list" where
  "place_order_with_retry cfg ex symb side amount otype pr s =
     (case retry_loop cfg ex symb side amount otype pr 1 None s of
        (r, s', ev) \<Rightarrow> (r, s', Print_placing side amount symb otype pr # ev))"

section \<open>The webhook handler\<close>

record TVPayload =
  symbol :: string
  action :: string
  quantity :: real
  order_type :: string
  price :: "real option"
  client_id :: "string option"

text \<open>
  The handler either raises an \<open>HTTPException\<close> or returns the dict
  \<open>{'status': 'ok', 'order_id': order.get('id'), 'raw': order}\<close>; on success it adds
  three background tasks, in this order.
\<close>

datatype http_result =
    HTTPException int string
  | Response_ok pyval order

datatype task = Log_order order | Log_order_to_gsheet order | Notify_remote order

definition webhook ::
  "config \<Rightarrow> 'st exchange \<Rightarrow> TVPayload \<Rightarrow> 'st \<Rightarrow> http_result \<times> 'st \<times> event list \<times> task list" where
  "webhook cfg ex payload s =
     (let symb = normalize_symbol (symbol payload);
          side = str_lower (str_strip (action payload))
      in if side \<noteq> ''buy'' \<and> side \<noteq> ''sell'' then
           (HTTPException 400 ''action must be BUY or SELL'', s, [], [])
         else
           (case place_order_with_retry cfg ex symb side (quantity payload)
                   (order_type payload) (price payload) s of
              (Inl e, s', ev) \<Rightarrow>
                (HTTPException 500 (''Order placement failed: '' @ str_exn e), s', ev, [])
            | (Inr order, s', ev) \<Rightarrow>
                (Response_ok (dict_get order ''id'') order, s', ev,
                 [Log_order order, Log_order_to_gsheet order, Notify_remote order])))"

section \<open>Observations on a run\<close>

text \<open>The components of what a run returns: the outcome, the exchange's state, the events.\<close>

definition outcome :: "'a \<times> 'st \<times> event list \<Rightarrow> 'a" where
  "outcome r = fst r"

definition events :: "'a \<times> 'st \<times> event list \<Rightarrow> event list" where
  "events r = snd (snd r)"

text \<open>
  The exchange calls of a run, the delays slept, and the failed attempts printed (the
  attempt number and the exception), each in order.
\<close>

fun calls :: "event list \<Rightarrow> call list" where
  "calls [] = []"
| "calls (Called c # ev) = c # calls ev"
| "calls (_ # ev) = calls ev"

fun sleeps :: "event list \<Rightarrow> int list" where
  "sleeps [] = []"
| "sleeps (Slept d # ev) = d # sleeps ev"
| "sleeps (_ # ev) = sleeps ev"

fun failures :: "event list \<Rightarrow> (int \<times> exn) list" where
  "failures [] = []"
| "failures (Print_failed a e # ev) = (a, e) # failures ev"
| "failures (_ # ev) = failures ev"

text \<open>
  \<open>failed_attempts ex ... n s\<close>: the exceptions of \<open>n\<close> attempts in a row, the first one made
  in the exchange state \<open>s\<close> and each later one in the state its predecessor left, when
  every one of them fails; \<open>None\<close> when one of them returns an order.
\<close>

fun failed_attempts ::
  "'st exchange \<Rightarrow> string \<Rightarrow> string \<Rightarrow> real \<Rightarrow> string \<Rightarrow> real option \<Rightarrow> nat \<Rightarrow> 'st
     \<Rightarrow> exn list option" where
  "failed_attempts ex symb side amount otype pr 0 s = Some []"
| "failed_attempts ex symb side amount otype pr (Suc n) s =
     (case try_body ex symb side amount otype pr s of
        (Inl e, s', ev) \<Rightarrow>
          (case failed_attempts ex symb side amount otype pr n s' of
             None \<Rightarrow> None
           | Some es \<Rightarrow> Some (e # es))
      | (Inr order, s', ev) \<Rightarrow> None)"

text \<open>
  For a submission whose dispatch raises \<open>v\<close> before any order is placed, an attempt is
  one call of \<open>load_markets\<close>: \<open>refreshed ex k s\<close> is the exchange state after \<open>k\<close> such
  calls from \<open>s\<close>, and \<open>attempt_error ex v s\<close> is what the attempt made in \<open>s\<close> raises,
  the exception of \<open>load_markets\<close> when it raises and \<open>v\<close> when it returns.
\<close>

fun refreshed :: "'st exchange \<Rightarrow> nat \<Rightarrow> 'st \<Rightarrow> 'st" where
  "refreshed ex 0 s = s"
| "refreshed ex (Suc k) s = refreshed ex k (snd (ex Load_markets s))"

definition attempt_error :: "'st exchange \<Rightarrow> exn \<Rightarrow> 'st \<Rightarrow> exn" where
  "attempt_error ex v s = (case fst (ex Load_markets s) of Inl e \<Rightarrow> e | Inr m \<Rightarrow> v)"

text \<open>
  A scripted exchange, for concrete runs: its state is the list of replies still to
  give, one per call, whatever the call; out of replies, it raises.
\<close>

definition scripted :: "((exn + order) list) exchange" where
  "scripted c rs =
     (case rs of
        [] \<Rightarrow> (Inl (ExchangeError ''no reply''), [])
      | r # rs' \<Rightarrow> (r, rs'))"

text \<open>An exchange that answers every call with a filled order.\<close>

definition filled :: order where
  "filled = [(''id'', PyStr ''42''), (''status'', PyStr ''closed'')]"

definition always_fills :: "unit exchange" where
  "always_fills c s = (Inr filled, s)"

text \<open>The configuration the source falls back to: three attempts, two seconds between them.\<close>

definition default_config :: config where
  "default_config = \<lparr>MAX_RETRIES = 3, RETRY_DELAY = 2\<rparr>"

text \<open>Orders still open on the exchange, for concrete runs.\<close>

definition open_order :: order where
  "open_order = [(''id'', PyStr ''42''), (''status'', PyStr ''open'')]"

definition partial_order :: order where
  "partial_order = [(''id'', PyStr ''43''), (''status'', PyStr ''partial'')]"

section \<open>Strings and the symbol normalizer: lemmas\<close>

lemma of_char_upper_char:
  "(of_char (upper_char c) :: nat) =
     (if 97 \<le> (of_char c :: nat) \<and> (of_char c :: nat) \<le> 122 then of_char c - 32 else of_char c)"
  by (auto simp add: upper_char_def Let_def)

lemma of_char_lower_char:
  "(of_char (lower_char c) :: nat) =
     (if 65 \<le> (of_char c :: nat) \<and> (of_char c :: nat) \<le> 90 then of_char c + 32 else of_char c)"
  by (auto simp add: lower_char_def Let_def)

lemma char_eq_code: "(c = d) = ((of_char c :: nat) = of_char d)"
  by simp

lemma upper_char_upper_char: "upper_char (upper_char c) = upper_char c"
  by (auto simp add: char_eq_code of_char_upper_char simp del: of_char_eq_iff)

lemma upper_char_underscore: "upper_char c = CHR ''_'' \<longleftrightarrow> c = CHR ''_''"
  by (auto simp add: char_eq_code of_char_upper_char simp del: of_char_eq_iff)

lemma upper_char_slash: "upper_char c = CHR ''/'' \<longleftrightarrow> c = CHR ''/''"
  by (auto simp add: char_eq_code of_char_upper_char simp del: of_char_eq_iff)

lemma isspace_lower_char: "isspace (lower_char c) = isspace c"
  by (auto simp add: isspace_def Let_def of_char_lower_char)

lemma normalize_symbol_example: "normalize_symbol ''btc_usdt'' = ''BTC/USDT''"
  by code_simp

section \<open>Events of one attempt\<close>

declare retry_loop.simps [simp del]

lemma calls_append: "calls (xs @ ys) = calls xs @ calls ys"
  by (induction xs rule: calls.induct) simp_all

lemma sleeps_append: "sleeps (xs @ ys) = sleeps xs @ sleeps ys"
  by (induction xs rule: sleeps.induct) simp_all

lemma failures_append: "failures (xs @ ys) = failures xs @ failures ys"
  by (induction xs rule: failures.induct) simp_all

lemmas try_body_unfold =
  try_body_def create_order_def check_partial_fill_def call_exchange_def events_def

lemma try_body_sleeps: "sleeps (events (try_body ex symb side amount otype pr s)) = []"
  by (auto simp add: try_body_unfold sleeps_append failures_append calls_append split: prod.splits sum.splits option.splits)

lemma try_body_failures: "failures (events (try_body ex symb side amount otype pr s)) = []"
  by (auto simp add: try_body_unfold sleeps_append failures_append calls_append split: prod.splits sum.splits option.splits)

lemma try_body_load_markets:
  "\<exists>cs. calls (events (try_body ex symb side amount otype pr s)) = Load_markets # cs
        \<and> Load_markets \<notin> set cs"
  by (auto simp add: try_body_unfold sleeps_append failures_append calls_append split: prod.splits sum.splits option.splits)

section \<open>Unfolding the retry loop\<close>

lemma retry_loop_exhausted:
  "MAX_RETRIES cfg < attempt \<Longrightarrow>
   retry_loop cfg ex symb side amount otype pr attempt last_exception s =
     (case last_exception of
        None \<Rightarrow> (Inl (TypeError ''exceptions must derive from BaseException''), s, [])
      | Some e \<Rightarrow> (Inl e, s, []))"
  by (subst retry_loop.simps) simp

lemma retry_loop_success:
  "attempt \<le> MAX_RETRIES cfg \<Longrightarrow>
   try_body ex symb side amount otype pr s = (Inr order, s1, ev) \<Longrightarrow>
   retry_loop cfg ex symb side amount otype pr attempt last_exception s = (Inr order, s1, ev)"
  by (subst retry_loop.simps) simp

lemma time_sleep_portable: "portable_delay d \<Longrightarrow> time_sleep d = (Inr (), [Slept d])"
  by (simp add: time_sleep_def portable_delay_def)

lemma retry_loop_slept:
  "attempt < MAX_RETRIES cfg \<Longrightarrow> time_sleep (RETRY_DELAY cfg) = (Inr u, ev') \<Longrightarrow>
   try_body ex symb side amount otype pr s = (Inl e, s1, ev) \<Longrightarrow>
   retry_loop cfg ex symb side amount otype pr attempt last_exception s =
     (case retry_loop cfg ex symb side amount otype pr (attempt + 1) (Some e) s1 of
        (r, s2, ev2) \<Rightarrow> (r, s2, ev @ [Print_failed attempt e] @ ev' @ ev2))"
  by (subst retry_loop.simps) simp

lemma retry_loop_retry:
  "attempt < MAX_RETRIES cfg \<Longrightarrow> portable_delay (RETRY_DELAY cfg) \<Longrightarrow>
   try_body ex symb side amount otype pr s = (Inl e, s1, ev) \<Longrightarrow>
   retry_loop cfg ex symb side amount otype pr attempt last_exception s =
     (case retry_loop cfg ex symb side amount otype pr (attempt + 1) (Some e) s1 of
        (r, s2, ev2) \<Rightarrow> (r, s2, ev @ [Print_failed attempt e, Slept (RETRY_DELAY cfg)] @ ev2))"
  by (subst retry_loop.simps) (simp add: time_sleep_portable)

lemma retry_loop_final_failure:
  "attempt = MAX_RETRIES cfg \<Longrightarrow>
   try_body ex symb side amount otype pr s = (Inl e, s1, ev) \<Longrightarrow>
   retry_loop cfg ex symb side amount otype pr attempt last_exception s =
     (Inl e, s1, ev @ [Print_failed attempt e])"
  by (subst retry_loop.simps) (simp add: retry_loop_exhausted)

lemma retry_loop_sleep_raises:
  "attempt < MAX_RETRIES cfg \<Longrightarrow> time_sleep (RETRY_DELAY cfg) = (Inl e', ev') \<Longrightarrow>
   try_body ex symb side amount otype pr s = (Inl e, s1, ev) \<Longrightarrow>
   retry_loop cfg ex symb side amount otype pr attempt last_exception s =
     (Inl e', s1, ev @ [Print_failed attempt e] @ ev')"
  by (subst retry_loop.simps) simp

lemma failed_attempts_length:
  "failed_attempts ex symb side amount otype pr n s = Some es \<Longrightarrow> length es = n"
  by (induction n arbitrary: s es) (auto split: prod.splits sum.splits option.splits)

lemma try_body_count_load_markets:
  "count_list (calls (events (try_body ex symb side amount otype pr s))) Load_markets = 1"
proof -
  from try_body_load_markets [of ex symb side amount otype pr s]
  obtain cs where "calls (events (try_body ex symb side amount otype pr s)) = Load_markets # cs"
    and "Load_markets \<notin> set cs" by blast
  then show ?thesis by (simp add: count_list_0_iff)
qed

lemma retry_loop_all_fail:
  assumes d: "portable_delay (RETRY_DELAY cfg)"
  shows "failed_attempts ex symb side amount otype pr n s = Some es \<Longrightarrow>
     int n = MAX_RETRIES cfg + 1 - attempt \<Longrightarrow> 0 < n \<Longrightarrow>
     outcome (retry_loop cfg ex symb side amount otype pr attempt last_exception s) = Inl (last es) \<and>
     count_list (calls (events (retry_loop cfg ex symb side amount otype pr attempt last_exception s)))
        Load_markets = n \<and>
     sleeps (events (retry_loop cfg ex symb side amount otype pr attempt last_exception s)) =
        replicate (n - 1) (RETRY_DELAY cfg) \<and>
     failures (events (retry_loop cfg ex symb side amount otype pr attempt last_exception s)) =
        zip [attempt..MAX_RETRIES cfg] es"
proof (induction n arbitrary: attempt last_exception s es)
  case 0
  then show ?case by simp
next
  case (Suc n)
  from Suc.prems(1) obtain e s1 ev es' where
    t: "try_body ex symb side amount otype pr s = (Inl e, s1, ev)" and
    f: "failed_attempts ex symb side amount otype pr n s1 = Some es'" and
    es: "es = e # es'"
    by (auto split: prod.splits sum.splits option.splits)
  from t have ev: "events (try_body ex symb side amount otype pr s) = ev"
    by (simp add: events_def)
  note obs = try_body_count_load_markets [of ex symb side amount otype pr s]
    try_body_sleeps [of ex symb side amount otype pr s]
    try_body_failures [of ex symb side amount otype pr s]
  show ?case
  proof (cases n)
    case 0
    with Suc.prems(2) have a: "attempt = MAX_RETRIES cfg" by simp
    from f 0 have "es' = []" by simp
    with a t es obs ev 0 show ?thesis
      by (simp add: retry_loop_final_failure outcome_def events_def
            calls_append sleeps_append failures_append)
  next
    case (Suc m)
    with Suc.prems(2) have a: "attempt < MAX_RETRIES cfg" by simp
    from Suc.prems(2) have n: "int n = MAX_RETRIES cfg + 1 - (attempt + 1)" by simp
    from Suc have "0 < n" by simp
    note ih = Suc.IH [OF f n this, of "Some e"]
    from failed_attempts_length [OF f] Suc have "es' \<noteq> []" by auto
    then have l: "last es = last es'" by (simp add: es)
    from a have u: "[attempt..MAX_RETRIES cfg] = attempt # [attempt + 1..MAX_RETRIES cfg]"
      by (simp add: upto_rec1)
    obtain r s2 ev2 where
      rl: "retry_loop cfg ex symb side amount otype pr (attempt + 1) (Some e) s1 = (r, s2, ev2)"
      by (cases "retry_loop cfg ex symb side amount otype pr (attempt + 1) (Some e) s1")
    with ih have "r = Inl (last es')" "count_list (calls ev2) Load_markets = n"
      "sleeps ev2 = replicate (n - 1) (RETRY_DELAY cfg)"
      "failures ev2 = zip [attempt + 1..MAX_RETRIES cfg] es'"
      by (simp_all add: outcome_def events_def)
    with a d t rl l u es obs ev Suc show ?thesis
      by (simp add: retry_loop_retry outcome_def events_def
            calls_append sleeps_append failures_append)
  qed
qed

lemma try_body_events_eq:
  "try_body ex symb side amount otype pr s = (r, s', ev) \<Longrightarrow>
   events (try_body ex symb side amount otype pr s) = ev"
  by (simp add: events_def)

lemma create_order_returns:
  "create_order ex symb side amount otype pr s = (Inr order, s', ev) \<Longrightarrow>
   \<exists>c. ev = [Called c] \<and> c \<noteq> Load_markets \<and> (\<forall>i sy. c \<noteq> Fetch_order i sy)"
  by (auto simp add: create_order_def call_exchange_def split: if_splits option.splits prod.splits)

lemma retry_loop_first_attempt:
  assumes "attempt \<le> MAX_RETRIES cfg"
  shows "\<exists>rest. events (retry_loop cfg ex symb side amount otype pr attempt last_exception s) =
           events (try_body ex symb side amount otype pr s) @ rest"
proof -
  obtain r s1 ev where t: "try_body ex symb side amount otype pr s = (r, s1, ev)"
    by (cases "try_body ex symb side amount otype pr s")
  show ?thesis
  proof (cases r)
    case (Inr order)
    with t assms show ?thesis by (simp add: retry_loop_success events_def)
  next
    case (Inl e)
    with t have t': "try_body ex symb side amount otype pr s = (Inl e, s1, ev)" by simp
    show ?thesis
    proof (cases "attempt < MAX_RETRIES cfg")
      case False
      with assms have "attempt = MAX_RETRIES cfg" by simp
      from retry_loop_final_failure [OF this t'] t' show ?thesis by (simp add: events_def)
    next
      case True
      show ?thesis
      proof (cases "time_sleep (RETRY_DELAY cfg)")
        case (Pair u ev')
        show ?thesis
        proof (cases u)
          case (Inl e')
          with Pair have "time_sleep (RETRY_DELAY cfg) = (Inl e', ev')" by simp
          from retry_loop_sleep_raises [OF True this t'] t' show ?thesis by (simp add: events_def)
        next
          case (Inr u')
          with Pair have "time_sleep (RETRY_DELAY cfg) = (Inr u', ev')" by simp
          from retry_loop_slept [OF True this t'] t' show ?thesis
            by (simp add: events_def split: prod.splits)
        qed
      qed
    qed
  qed
qed

lemmas run_unfold = try_body_unfold scripted_def status_open_or_partial_def dict_get_def
  dict_item_def open_order_def partial_order_def filled_def

section \<open>Stripping and lowering the action; the webhook on an accepted action\<close>

lemma dropWhile_isspace_lower:
  "dropWhile isspace (map lower_char s) = map lower_char (dropWhile isspace s)"
  by (induction s) (simp_all add: isspace_lower_char)

lemma str_lower_strip: "str_lower (str_strip a) = str_strip (str_lower a)"
  by (simp add: str_lower_def str_strip_def rev_map dropWhile_isspace_lower)

lemma str_strip_padded:
  assumes "\<forall>c \<in> set pre. isspace c" and "\<forall>c \<in> set post. isspace c"
    and "v \<noteq> []" and "\<not> isspace (hd v)" and "\<not> isspace (last v)"
  shows "str_strip (pre @ v @ post) = v"
proof -
  from assms(3,4) have "dropWhile isspace (v @ post) = v @ post" by (cases v) simp_all
  with assms(1) have a: "dropWhile isspace (pre @ v @ post) = v @ post"
    by (simp add: dropWhile_append2)
  from assms(3,5) have "dropWhile isspace (rev v) = rev v"
    by (cases v rule: rev_cases) simp_all
  moreover from assms(2) have "dropWhile isspace (rev post @ rev v) = dropWhile isspace (rev v)"
    by (intro dropWhile_append2) simp
  ultimately have "dropWhile isspace (rev post @ rev v) = rev v" by simp
  with a show ?thesis by (simp add: str_strip_def)
qed

lemma lower_not_space:
  assumes "str_lower v = ''buy'' \<or> str_lower v = ''sell''"
  shows "v \<noteq> [] \<and> \<not> isspace (hd v) \<and> \<not> isspace (last v)"
proof -
  have b: "\<not> isspace CHR ''b''" "\<not> isspace CHR ''y''" "\<not> isspace CHR ''s''" "\<not> isspace CHR ''l''"
    by (simp_all add: isspace_def)
  from assms have ne: "v \<noteq> []" by (auto simp add: str_lower_def)
  with assms have "lower_char (hd v) = CHR ''b'' \<or> lower_char (hd v) = CHR ''s''"
    by (cases v) (auto simp add: str_lower_def)
  then have h: "\<not> isspace (hd v)" using b isspace_lower_char [of "hd v"] by auto
  from ne assms have "lower_char (last v) = CHR ''y'' \<or> lower_char (last v) = CHR ''l''"
    by (cases v rule: rev_cases) (auto simp add: str_lower_def)
  then have "\<not> isspace (last v)" using b isspace_lower_char [of "last v"] by auto
  with ne h show ?thesis by simp
qed

lemma webhook_accepted:
  assumes "str_lower (str_strip (action p)) = side"
    and "side = ''buy'' \<or> side = ''sell''"
  shows "webhook cfg ex p s =
     (case place_order_with_retry cfg ex (normalize_symbol (symbol p)) side (quantity p)
             (order_type p) (price p) s of
        (Inl e, s', ev) \<Rightarrow>
          (HTTPException 500 (''Order placement failed: '' @ str_exn e), s', ev, [])
      | (Inr order, s', ev) \<Rightarrow>
          (Response_ok (dict_get order ''id'') order, s', ev,
           [Log_order order, Log_order_to_gsheet order, Notify_remote order]))"
  using assms by (auto simp add: webhook_def Let_def)

lemma market_order_filled:
  "place_order_with_retry default_config always_fills symb side amount ''market'' pr () =
     (Inr filled, (),
      [Print_placing side amount symb ''market'' pr, Called Load_markets,
       Called (if side = ''buy'' then Create_market_buy_order symb amount
               else Create_market_sell_order symb amount)])"
proof -
  have t: "try_body always_fills symb side amount ''market'' pr () =
      (Inr filled, (),
       [Called Load_markets,
        Called (if side = ''buy'' then Create_market_buy_order symb amount
                else Create_market_sell_order symb amount)])"
    by (simp add: try_body_unfold always_fills_def status_open_or_partial_def dict_get_def
          filled_def)
  have "retry_loop default_config always_fills symb side amount ''market'' pr 1 None () =
      (Inr filled, (),
       [Called Load_markets,
        Called (if side = ''buy'' then Create_market_buy_order symb amount
                else Create_market_sell_order symb amount)])"
    by (rule retry_loop_success [OF _ t]) (simp add: default_config_def)
  then show ?thesis by (simp add: place_order_with_retry_def)
qed

section \<open>The first calls of a submission\<close>

lemma try_body_first_calls:
  assumes "ex Load_markets s = (Inr m, sl)"
    and "create_order ex symb side amount otype pr sl = call_exchange ex c sl"
  shows "take 2 (calls (events (try_body ex symb side amount otype pr s))) = [Load_markets, c]"
  using assms
  by (simp add: try_body_def call_exchange_def check_partial_fill_def events_def
        split: prod.splits sum.splits)

lemma place_order_events:
  "events (place_order_with_retry cfg ex symb side amount otype pr s) =
     Print_placing side amount symb otype pr #
     events (retry_loop cfg ex symb side amount otype pr 1 None s)"
  by (simp add: place_order_with_retry_def events_def split: prod.splits)

lemma place_order_first_calls:
  assumes "1 \<le> MAX_RETRIES cfg"
    and "take 2 (calls (events (try_body ex symb side amount otype pr s))) = [a, b]"
  shows "take 2 (calls (events (place_order_with_retry cfg ex symb side amount otype pr s))) = [a, b]"
proof -
  from retry_loop_first_attempt [OF assms(1), of ex symb side amount otype pr None s]
  obtain rest where "events (retry_loop cfg ex symb side amount otype pr 1 None s) =
      events (try_body ex symb side amount otype pr s) @ rest" by blast
  then have c: "calls (events (place_order_with_retry cfg ex symb side amount otype pr s)) =
      calls (events (try_body ex symb side amount otype pr s)) @ calls rest"
    by (simp add: place_order_events calls_append)
  from assms(2) have "length (take 2 (calls (events (try_body ex symb side amount otype pr s)))) = 2"
    by simp
  then have "2 \<le> length (calls (events (try_body ex symb side amount otype pr s)))" by simp
  with c assms(2) show ?thesis by simp
qed

section \<open>Validation errors inside the retry loop\<close>

lemma try_body_validation_error:
  assumes "\<And>s'. create_order ex symb side amount otype pr s' = (Inl v, s', [])"
  shows "try_body ex symb side amount otype pr s =
     (case ex Load_markets s of
        (Inl e, sl) \<Rightarrow> (Inl e, sl, [Called Load_markets])
      | (Inr m, sl) \<Rightarrow> (Inl v, sl, [Called Load_markets]))"
  by (simp add: try_body_def call_exchange_def assms split: prod.splits sum.splits)

lemma try_body_attempt_error:
  assumes "\<And>s'. create_order ex symb side amount otype pr s' = (Inl v, s', [])"
  shows "try_body ex symb side amount otype pr s =
     (Inl (attempt_error ex v s), snd (ex Load_markets s), [Called Load_markets])"
  by (simp add: try_body_validation_error [OF assms] attempt_error_def
        split: prod.splits sum.splits)

lemma retry_loop_validation_error:
  assumes v: "\<And>s'. create_order ex symb side amount otype pr s' = (Inl v, s', [])"
    and d: "portable_delay (RETRY_DELAY cfg)"
  shows "int n = MAX_RETRIES cfg + 1 - attempt \<Longrightarrow> 0 < n \<Longrightarrow>
     outcome (retry_loop cfg ex symb side amount otype pr attempt last_exception s) =
       Inl (attempt_error ex v (refreshed ex (n - 1) s)) \<and>
     failures (events (retry_loop cfg ex symb side amount otype pr attempt last_exception s)) =
       map (\<lambda>k. (attempt + int k, attempt_error ex v (refreshed ex k s))) [0..<n] \<and>
     calls (events (retry_loop cfg ex symb side amount otype pr attempt last_exception s)) =
       replicate n Load_markets \<and>
     sleeps (events (retry_loop cfg ex symb side amount otype pr attempt last_exception s)) =
       replicate (n - 1) (RETRY_DELAY cfg)"
proof (induction n arbitrary: attempt last_exception s)
  case 0
  then show ?case by simp
next
  case (Suc n)
  note t = try_body_attempt_error [OF v, of s]
  show ?case
  proof (cases n)
    case 0
    with Suc.prems(1) have a: "attempt = MAX_RETRIES cfg" by simp
    from retry_loop_final_failure [OF a t, of last_exception] 0 show ?thesis
      by (simp add: outcome_def events_def)
  next
    case (Suc m)
    with Suc.prems(1) have a: "attempt < MAX_RETRIES cfg" by simp
    from Suc.prems(1) have n: "int n = MAX_RETRIES cfg + 1 - (attempt + 1)" by simp
    from Suc have p: "0 < n" by simp
    obtain r s2 ev2 where
      rl: "retry_loop cfg ex symb side amount otype pr (attempt + 1)
             (Some (attempt_error ex v s)) (snd (ex Load_markets s)) = (r, s2, ev2)"
      by (cases "retry_loop cfg ex symb side amount otype pr (attempt + 1)
             (Some (attempt_error ex v s)) (snd (ex Load_markets s))")
    from Suc.IH [OF n p, of "Some (attempt_error ex v s)" "snd (ex Load_markets s)"] rl
    have ih: "r = Inl (attempt_error ex v (refreshed ex (n - 1) (snd (ex Load_markets s))))"
      "failures ev2 = map (\<lambda>k. (attempt + 1 + int k,
          attempt_error ex v (refreshed ex k (snd (ex Load_markets s))))) [0..<n]"
      "calls ev2 = replicate n Load_markets"
      "sleeps ev2 = replicate (n - 1) (RETRY_DELAY cfg)"
      by (simp_all add: outcome_def events_def)
    from retry_loop_retry [OF a d t, of last_exception] rl
    have "retry_loop cfg ex symb side amount otype pr attempt last_exception s =
        (r, s2, [Called Load_markets, Print_failed attempt (attempt_error ex v s),
                 Slept (RETRY_DELAY cfg)] @ ev2)"
      by simp
    moreover have "map (\<lambda>k. (attempt + int k, attempt_error ex v (refreshed ex k s))) [0..<Suc n] =
        (attempt, attempt_error ex v s) #
        map (\<lambda>k. (attempt + 1 + int k,
          attempt_error ex v (refreshed ex k (snd (ex Load_markets s))))) [0..<n]"
      by (simp add: map_upt_Suc add.assoc del: upt_Suc)
    moreover from Suc have "refreshed ex (Suc n - 1) s =
        refreshed ex (n - 1) (snd (ex Load_markets s))" by simp
    ultimately show ?thesis using ih Suc
      by (simp add: outcome_def events_def del: upt_Suc)
  qed
qed

lemma place_order_validation_error:
  assumes "\<And>s'. create_order ex symb side amount otype pr s' = (Inl v, s', [])"
    and "1 \<le> MAX_RETRIES cfg" and "portable_delay (RETRY_DELAY cfg)"
  shows "outcome (place_order_with_retry cfg ex symb side amount otype pr s) =
       Inl (attempt_error ex v (refreshed ex (nat (MAX_RETRIES cfg) - 1) s)) \<and>
     failures (events (place_order_with_retry cfg ex symb side amount otype pr s)) =
       map (\<lambda>k. (1 + int k, attempt_error ex v (refreshed ex k s))) [0..<nat (MAX_RETRIES cfg)] \<and>
     calls (events (place_order_with_retry cfg ex symb side amount otype pr s)) =
       replicate (nat (MAX_RETRIES cfg)) Load_markets \<and>
     sleeps (events (place_order_with_retry cfg ex symb side amount otype pr s)) =
       replicate (nat (MAX_RETRIES cfg) - 1) (RETRY_DELAY cfg)"
proof -
  from assms(2) have n: "int (nat (MAX_RETRIES cfg)) = MAX_RETRIES cfg + 1 - 1"
    and p: "0 < nat (MAX_RETRIES cfg)" by simp_all
  have o: "outcome (place_order_with_retry cfg ex symb side amount otype pr s) =
      outcome (retry_loop cfg ex symb side amount otype pr 1 None s)"
    by (simp add: place_order_with_retry_def outcome_def split: prod.splits)
  from retry_loop_validation_error [OF assms(1) assms(3) n p, of None s] show ?thesis
    by (simp add: o place_order_events)
qed

lemma webhook_failure:
  assumes "str_lower (str_strip (action p)) = ''buy'' \<or> str_lower (str_strip (action p)) = ''sell''"
    and "outcome (place_order_with_retry cfg ex (normalize_symbol (symbol p))
           (str_lower (str_strip (action p))) (quantity p) (order_type p) (price p) s) = Inl e"
  shows "fst (webhook cfg ex p s) = HTTPException 500 (''Order placement failed: '' @ str_exn e)"
  using assms(2) webhook_accepted [OF refl assms(1), of cfg ex s]
  by (simp add: outcome_def split: prod.splits)

lemma validation_error_run:
  assumes "create_order always_fills symb side amount otype pr () = (Inl v, (), [])"
  shows "place_order_with_retry default_config always_fills symb side amount otype pr () =
     (Inl v, (),
      [Print_placing side amount symb otype pr,
       Called Load_markets, Print_failed 1 v, Slept 2,
       Called Load_markets, Print_failed 2 v, Slept 2,
       Called Load_markets, Print_failed 3 v])"
proof -
  have t: "try_body always_fills symb side amount otype pr () = (Inl v, (), [Called Load_markets])"
    using assms by (simp add: try_body_def call_exchange_def always_fills_def)
  have c: "(1::int) < MAX_RETRIES default_config" "(2::int) < MAX_RETRIES default_config"
    "(3::int) = MAX_RETRIES default_config" "portable_delay (RETRY_DELAY default_config)"
    by (simp_all add: default_config_def portable_delay_def)
  have third: "retry_loop default_config always_fills symb side amount otype pr 3 (Some v) () =
      (Inl v, (), [Called Load_markets, Print_failed 3 v])"
    using retry_loop_final_failure [OF c(3) t, of "Some v"] by simp
  have second: "retry_loop default_config always_fills symb side amount otype pr 2 (Some v) () =
      (Inl v, (), [Called Load_markets, Print_failed 2 v, Slept 2,
                   Called Load_markets, Print_failed 3 v])"
    using retry_loop_retry [OF c(2) c(4) t, of "Some v"] third by (simp add: default_config_def)
  have first: "retry_loop default_config always_fills symb side amount otype pr 1 None () =
      (Inl v, (), [Called Load_markets, Print_failed 1 v, Slept 2,
                   Called Load_markets, Print_failed 2 v, Slept 2,
                   Called Load_markets, Print_failed 3 v])"
    using retry_loop_retry [OF c(1) c(4) t, of None] second by (simp add: default_config_def)
  then show ?thesis by (simp add: place_order_with_retry_def)
qed

lemma three_load_markets:
  "replicate (nat (MAX_RETRIES default_config)) Load_markets = [Load_markets, Load_markets, Load_markets]"
  "replicate (nat (MAX_RETRIES default_config) - 1) (RETRY_DELAY default_config) = [2, 2]"
  by (simp_all add: default_config_def eval_nat_numeral)

section \<open>The symbol normalizer: contract and idempotence\<close>

text \<open>
  C5. \<open>normalize_symbol\<close> is a function from strings to strings with no error case. An
  input that contains the separator \<open>/\<close> is returned unchanged. An (ASCII) input without
  it is returned with every underscore replaced by the separator and the result
  uppercased: the output has the input's length, and position by position an
  underscore has become the separator and any other character its uppercase.
  \<open>btc_usdt\<close> becomes \<open>BTC/USDT\<close>.
\<close>

theorem normalize_symbol_contract:
  "(CHR ''/'' \<in> set s \<longrightarrow> normalize_symbol s = s) \<and>
   (CHR ''/'' \<notin> set s \<and> isascii s \<longrightarrow>
      normalize_symbol s = str_upper (str_replace (CHR ''_'') (CHR ''/'') s) \<and>
      length (normalize_symbol s) = length s \<and>
      (\<forall>i < length s. normalize_symbol s ! i =
         (if s ! i = CHR ''_'' then CHR ''/'' else upper_char (s ! i)))) \<and>
   normalize_symbol ''btc_usdt'' = ''BTC/USDT''"
proof -
  have a: "CHR ''/'' \<in> set s \<longrightarrow> normalize_symbol s = s"
    by (simp add: normalize_symbol_def)
  have b: "CHR ''/'' \<notin> set s \<and> isascii s \<longrightarrow>
      normalize_symbol s = str_upper (str_replace (CHR ''_'') (CHR ''/'') s) \<and>
      length (normalize_symbol s) = length s \<and>
      (\<forall>i < length s. normalize_symbol s ! i =
         (if s ! i = CHR ''_'' then CHR ''/'' else upper_char (s ! i)))"
    by (simp add: normalize_symbol_def str_upper_def str_replace_def upper_char_slash)
  from a b normalize_symbol_example show ?thesis by blast
qed

theorem normalize_symbol_contract_witness:
  "normalize_symbol ''ETH/usdt'' = ''ETH/usdt'' \<and> normalize_symbol ''eth_usdt'' = ''ETH/USDT''"
proof -
  have u: "str_upper (str_replace (CHR ''_'') (CHR ''/'') ''eth_usdt'') = ''ETH/USDT''"
    by code_simp
  have i: "isascii ''eth_usdt''" by (simp add: isascii_def)
  from normalize_symbol_contract [of "''ETH/usdt''"] normalize_symbol_contract [of "''eth_usdt''"] u i
  show ?thesis by simp
qed

text \<open>
  C8. \<open>normalize_symbol\<close> is idempotent: normalizing a normalized symbol changes nothing.
\<close>

theorem normalize_symbol_idempotent: "normalize_symbol (normalize_symbol s) = normalize_symbol s"
proof (cases "CHR ''/'' \<in> set s")
  case True
  then show ?thesis by (simp add: normalize_symbol_def)
next
  case False
  let ?r = "str_upper (str_replace (CHR ''_'') (CHR ''/'') s)"
  have "str_upper (str_replace (CHR ''_'') (CHR ''/'') ?r) = ?r"
    by (simp add: str_upper_def str_replace_def upper_char_upper_char upper_char_underscore upper_char_slash)
  then show ?thesis by (simp add: normalize_symbol_def)
qed

section \<open>Exhausting the retries\<close>

text \<open>
  C3, as the code has it. When every one of the \<open>N = MAX_RETRIES\<close> attempts fails, with \<open>N\<close>
  at least 1 and a portable \<open>RETRY_DELAY\<close>, the submitter makes exactly \<open>N\<close>
  attempts: it calls \<open>load_markets\<close>, the first call of an attempt, \<open>N\<close> times, prints the
  failures of the attempts 1 to \<open>N\<close>, and sleeps \<open>N - 1\<close> times. It then raises the
  exception of the last attempt itself, \<open>raise last_exception\<close>: no other exception is
  put around it. The webhook that ran the submitter, on an ASCII symbol, answers 500
  with the text of that exception in the detail.
\<close>

theorem retries_exhausted:
  assumes "1 \<le> MAX_RETRIES cfg" and "portable_delay (RETRY_DELAY cfg)"
    and "failed_attempts ex symb side amount otype pr (nat (MAX_RETRIES cfg)) s = Some es"
  shows "outcome (place_order_with_retry cfg ex symb side amount otype pr s) = Inl (last es) \<and>
     length es = nat (MAX_RETRIES cfg) \<and>
     count_list (calls (events (place_order_with_retry cfg ex symb side amount otype pr s)))
        Load_markets = nat (MAX_RETRIES cfg) \<and>
     failures (events (place_order_with_retry cfg ex symb side amount otype pr s)) =
        zip [1..MAX_RETRIES cfg] es \<and>
     sleeps (events (place_order_with_retry cfg ex symb side amount otype pr s)) =
        replicate (nat (MAX_RETRIES cfg) - 1) (RETRY_DELAY cfg) \<and>
     (isascii (symbol p) \<and>
      symb = normalize_symbol (symbol p) \<and> side = str_lower (str_strip (action p)) \<and>
      (side = ''buy'' \<or> side = ''sell'') \<and>
      amount = quantity p \<and> otype = order_type p \<and> pr = price p \<longrightarrow>
        fst (webhook cfg ex p s) =
          HTTPException 500 (''Order placement failed: '' @ str_exn (last es)))"
proof -
  from assms(1) have n: "int (nat (MAX_RETRIES cfg)) = MAX_RETRIES cfg + 1 - 1"
    and p: "0 < nat (MAX_RETRIES cfg)" by simp_all
  obtain r s' ev where
    rl: "retry_loop cfg ex symb side amount otype pr 1 None s = (r, s', ev)"
    by (cases "retry_loop cfg ex symb side amount otype pr 1 None s")
  from retry_loop_all_fail [OF assms(2) assms(3) n p, of None] rl
  have "r = Inl (last es)" "count_list (calls ev) Load_markets = nat (MAX_RETRIES cfg)"
    "sleeps ev = replicate (nat (MAX_RETRIES cfg) - 1) (RETRY_DELAY cfg)"
    "failures ev = zip [1..MAX_RETRIES cfg] es"
    by (simp_all add: outcome_def events_def)
  with rl failed_attempts_length [OF assms(3)]
  have run: "outcome (place_order_with_retry cfg ex symb side amount otype pr s) = Inl (last es)"
    "length es = nat (MAX_RETRIES cfg)"
    "count_list (calls (events (place_order_with_retry cfg ex symb side amount otype pr s)))
        Load_markets = nat (MAX_RETRIES cfg)"
    "failures (events (place_order_with_retry cfg ex symb side amount otype pr s)) =
        zip [1..MAX_RETRIES cfg] es"
    "sleeps (events (place_order_with_retry cfg ex symb side amount otype pr s)) =
        replicate (nat (MAX_RETRIES cfg) - 1) (RETRY_DELAY cfg)"
    by (simp_all add: place_order_with_retry_def outcome_def events_def)
  have answered: "isascii (symbol p) \<and>
      symb = normalize_symbol (symbol p) \<and> side = str_lower (str_strip (action p)) \<and>
      (side = ''buy'' \<or> side = ''sell'') \<and>
      amount = quantity p \<and> otype = order_type p \<and> pr = price p \<longrightarrow>
        fst (webhook cfg ex p s) =
          HTTPException 500 (''Order placement failed: '' @ str_exn (last es))"
  proof (rule impI)
    assume h: "isascii (symbol p) \<and>
      symb = normalize_symbol (symbol p) \<and> side = str_lower (str_strip (action p)) \<and>
      (side = ''buy'' \<or> side = ''sell'') \<and>
      amount = quantity p \<and> otype = order_type p \<and> pr = price p"
    then have sy: "symb = normalize_symbol (symbol p)"
      and sd: "side = str_lower (str_strip (action p))"
      and d: "side = ''buy'' \<or> side = ''sell''"
      and am: "amount = quantity p" and ot: "otype = order_type p" and pp: "pr = price p"
      by blast+
    from d have a: "str_lower (str_strip (action p)) = ''buy'' \<or>
        str_lower (str_strip (action p)) = ''sell''" unfolding sd .
    from run(1) have "outcome (place_order_with_retry cfg ex (normalize_symbol (symbol p))
        (str_lower (str_strip (action p))) (quantity p) (order_type p) (price p) s) =
        Inl (last es)" unfolding sy sd am ot pp .
    with a show "fst (webhook cfg ex p s) =
        HTTPException 500 (''Order placement failed: '' @ str_exn (last es))"
      by (rule webhook_failure)
  qed
  show ?thesis
    by (intro conjI run answered)
qed

lemma three_failures:
  "failed_attempts scripted ''BTC/USDT'' ''buy'' 1 ''market'' None (nat (MAX_RETRIES default_config))
     [Inl (ExchangeError ''e1''), Inl (ExchangeError ''e2''), Inl (ExchangeError ''e3'')] =
   Some [ExchangeError ''e1'', ExchangeError ''e2'', ExchangeError ''e3'']"
  by code_simp

theorem retries_exhausted_witness:
  "outcome (place_order_with_retry default_config scripted ''BTC/USDT'' ''buy'' 1 ''market'' None
      [Inl (ExchangeError ''e1''), Inl (ExchangeError ''e2''), Inl (ExchangeError ''e3'')]) =
      Inl (ExchangeError ''e3'') \<and>
   count_list (calls (events (place_order_with_retry default_config scripted ''BTC/USDT'' ''buy'' 1
      ''market'' None
      [Inl (ExchangeError ''e1''), Inl (ExchangeError ''e2''), Inl (ExchangeError ''e3'')])))
      Load_markets = 3 \<and>
   failures (events (place_order_with_retry default_config scripted ''BTC/USDT'' ''buy'' 1
      ''market'' None
      [Inl (ExchangeError ''e1''), Inl (ExchangeError ''e2''), Inl (ExchangeError ''e3'')])) =
      [(1, ExchangeError ''e1''), (2, ExchangeError ''e2''), (3, ExchangeError ''e3'')] \<and>
   sleeps (events (place_order_with_retry default_config scripted ''BTC/USDT'' ''buy'' 1
      ''market'' None
      [Inl (ExchangeError ''e1''), Inl (ExchangeError ''e2''), Inl (ExchangeError ''e3'')])) = [2, 2] \<and>
   fst (webhook default_config scripted
      \<lparr>symbol = ''btc_usdt'', action = ''buy'', quantity = 1, order_type = ''market'',
       price = None, client_id = None\<rparr>
      [Inl (ExchangeError ''e1''), Inl (ExchangeError ''e2''), Inl (ExchangeError ''e3'')]) =
      HTTPException 500 ''Order placement failed: e3''"
proof -
  have c: "1 \<le> MAX_RETRIES default_config" "portable_delay (RETRY_DELAY default_config)"
    by (simp_all add: default_config_def portable_delay_def)
  have u: "[1..3::int] = [1, 2, 3]" by code_simp
  have r: "replicate (nat 3 - 1) (2::int) = [2, 2]" by code_simp
  have a: "str_lower (str_strip ''buy'') = ''buy''" by code_simp
  have i: "isascii ''btc_usdt''" by (simp add: isascii_def)
  from retries_exhausted [OF c three_failures, where p =
      "\<lparr>symbol = ''btc_usdt'', action = ''buy'', quantity = 1, order_type = ''market'',
        price = None, client_id = None\<rparr>"]
    u r a i normalize_symbol_example
  show ?thesis by (simp add: default_config_def)
qed

text \<open>
  C3 as stated fails. What leaves the submitter after three failed attempts is the
  exception that the exchange raised in the third, not an exception that carries it.
  And with a delay of \<open>10000000000\<close> seconds \<open>time.sleep\<close> raises in the handler of the
  first failure, so one attempt is made, not three.
\<close>

theorem retries_exhausted_counterexample:
  "place_order_with_retry default_config scripted ''BTC/USDT'' ''buy'' 1 ''market'' None
      [Inl (ExchangeError ''e1''), Inl (ExchangeError ''e2''), Inl (ExchangeError ''e3'')] =
     (Inl (ExchangeError ''e3''), [],
      [Print_placing ''buy'' 1 ''BTC/USDT'' ''market'' None,
       Called Load_markets, Print_failed 1 (ExchangeError ''e1''), Slept 2,
       Called Load_markets, Print_failed 2 (ExchangeError ''e2''), Slept 2,
       Called Load_markets, Print_failed 3 (ExchangeError ''e3'')]) \<and>
   calls (events (place_order_with_retry \<lparr>MAX_RETRIES = 3, RETRY_DELAY = 10000000000\<rparr>
      scripted ''BTC/USDT'' ''buy'' 1 ''market'' None
      [Inl (ExchangeError ''e1''), Inl (ExchangeError ''e2''), Inl (ExchangeError ''e3'')])) =
     [Load_markets]"
proof -
  have t1: "try_body scripted ''BTC/USDT'' ''buy'' 1 ''market'' None
      [Inl (ExchangeError ''e1''), Inl (ExchangeError ''e2''), Inl (ExchangeError ''e3'')] =
      (Inl (ExchangeError ''e1''), [Inl (ExchangeError ''e2''), Inl (ExchangeError ''e3'')],
       [Called Load_markets])"
    and t2: "try_body scripted ''BTC/USDT'' ''buy'' 1 ''market'' None
      [Inl (ExchangeError ''e2''), Inl (ExchangeError ''e3'')] =
      (Inl (ExchangeError ''e2''), [Inl (ExchangeError ''e3'')], [Called Load_markets])"
    and t3: "try_body scripted ''BTC/USDT'' ''buy'' 1 ''market'' None [Inl (ExchangeError ''e3'')] =
      (Inl (ExchangeError ''e3''), [], [Called Load_markets])"
    by (simp_all add: try_body_def call_exchange_def scripted_def)
  have c: "(1::int) < MAX_RETRIES default_config" "(2::int) < MAX_RETRIES default_config"
    "(3::int) = MAX_RETRIES default_config" "portable_delay (RETRY_DELAY default_config)"
    by (simp_all add: default_config_def portable_delay_def)
  have third: "retry_loop default_config scripted ''BTC/USDT'' ''buy'' 1 ''market'' None 3
      (Some (ExchangeError ''e2'')) [Inl (ExchangeError ''e3'')] =
      (Inl (ExchangeError ''e3''), [], [Called Load_markets, Print_failed 3 (ExchangeError ''e3'')])"
    using retry_loop_final_failure [OF c(3) t3, of "Some (ExchangeError ''e2'')"] by simp
  have second: "retry_loop default_config scripted ''BTC/USDT'' ''buy'' 1 ''market'' None 2
      (Some (ExchangeError ''e1'')) [Inl (ExchangeError ''e2''), Inl (ExchangeError ''e3'')] =
      (Inl (ExchangeError ''e3''), [],
       [Called Load_markets, Print_failed 2 (ExchangeError ''e2''), Slept 2,
        Called Load_markets, Print_failed 3 (ExchangeError ''e3'')])"
    using retry_loop_retry [OF c(2) c(4) t2, of "Some (ExchangeError ''e1'')"] third
    by (simp add: default_config_def)
  have first: "retry_loop default_config scripted ''BTC/USDT'' ''buy'' 1 ''market'' None 1 None
      [Inl (ExchangeError ''e1''), Inl (ExchangeError ''e2''), Inl (ExchangeError ''e3'')] =
      (Inl (ExchangeError ''e3''), [],
       [Called Load_markets, Print_failed 1 (ExchangeError ''e1''), Slept 2,
        Called Load_markets, Print_failed 2 (ExchangeError ''e2''), Slept 2,
        Called Load_markets, Print_failed 3 (ExchangeError ''e3'')])"
    using retry_loop_retry [OF c(1) c(4) t1, of None] second
    by (simp add: default_config_def)
  have a: "(1::int) < MAX_RETRIES \<lparr>MAX_RETRIES = 3, RETRY_DELAY = 10000000000\<rparr>" by simp
  have z: "time_sleep (RETRY_DELAY \<lparr>MAX_RETRIES = 3, RETRY_DELAY = 10000000000\<rparr>) =
      (Inl (OverflowError ''timestamp too large to convert to C _PyTime_t''), [])"
    by (simp add: time_sleep_def)
  have huge: "retry_loop \<lparr>MAX_RETRIES = 3, RETRY_DELAY = 10000000000\<rparr> scripted
      ''BTC/USDT'' ''buy'' 1 ''market'' None 1 None
      [Inl (ExchangeError ''e1''), Inl (ExchangeError ''e2''), Inl (ExchangeError ''e3'')] =
      (Inl (OverflowError ''timestamp too large to convert to C _PyTime_t''),
       [Inl (ExchangeError ''e2''), Inl (ExchangeError ''e3'')],
       [Called Load_markets, Print_failed 1 (ExchangeError ''e1'')])"
    using retry_loop_sleep_raises [OF a z t1, of None] by simp
  from first huge show ?thesis by (simp add: place_order_with_retry_def events_def)
qed

section \<open>Success after two failures\<close>

text \<open>
  C4. With \<open>MAX_RETRIES\<close> at least 3 (and a portable \<open>RETRY_DELAY\<close>), when the
  first and the second attempt fail and the third returns an order, the submitter
  returns that order, and exactly two delays of \<open>RETRY_DELAY\<close> elapse: one after each
  failed attempt and none after the third. Three attempts are made.
\<close>

theorem succeeds_on_third_attempt:
  assumes "3 \<le> MAX_RETRIES cfg" and "portable_delay (RETRY_DELAY cfg)"
    and "try_body ex symb side amount otype pr s0 = (Inl e1, s1, ev1)"
    and "try_body ex symb side amount otype pr s1 = (Inl e2, s2, ev2)"
    and "try_body ex symb side amount otype pr s2 = (Inr order, s3, ev3)"
  shows "place_order_with_retry cfg ex symb side amount otype pr s0 =
       (Inr order, s3,
        Print_placing side amount symb otype pr # ev1 @
        [Print_failed 1 e1, Slept (RETRY_DELAY cfg)] @ ev2 @
        [Print_failed 2 e2, Slept (RETRY_DELAY cfg)] @ ev3) \<and>
     sleeps (events (place_order_with_retry cfg ex symb side amount otype pr s0)) =
       [RETRY_DELAY cfg, RETRY_DELAY cfg] \<and>
     count_list (calls (events (place_order_with_retry cfg ex symb side amount otype pr s0)))
       Load_markets = 3"
proof -
  from assms(1) have a: "1 < MAX_RETRIES cfg" "2 < MAX_RETRIES cfg" "3 \<le> MAX_RETRIES cfg"
    by simp_all
  have third: "retry_loop cfg ex symb side amount otype pr 3 (Some e2) s2 = (Inr order, s3, ev3)"
    using a(3) assms(5) by (rule retry_loop_success)
  have second: "retry_loop cfg ex symb side amount otype pr 2 (Some e1) s1 =
      (Inr order, s3, ev2 @ [Print_failed 2 e2, Slept (RETRY_DELAY cfg)] @ ev3)"
    using retry_loop_retry [OF a(2) assms(2) assms(4), of "Some e1"] third by simp
  have first: "retry_loop cfg ex symb side amount otype pr 1 None s0 =
      (Inr order, s3, ev1 @ [Print_failed 1 e1, Slept (RETRY_DELAY cfg)] @
         ev2 @ [Print_failed 2 e2, Slept (RETRY_DELAY cfg)] @ ev3)"
    using retry_loop_retry [OF a(1) assms(2) assms(3), of None] second by simp
  note o1 = try_body_sleeps [of ex symb side amount otype pr s0]
    try_body_count_load_markets [of ex symb side amount otype pr s0]
  note o2 = try_body_sleeps [of ex symb side amount otype pr s1]
    try_body_count_load_markets [of ex symb side amount otype pr s1]
  note o3 = try_body_sleeps [of ex symb side amount otype pr s2]
    try_body_count_load_markets [of ex symb side amount otype pr s2]
  from first o1 o2 o3 assms(3-5) show ?thesis
    by (simp add: place_order_with_retry_def events_def sleeps_append calls_append)
qed

lemma third_attempt_script:
  "try_body scripted ''BTC/USDT'' ''buy'' 1 ''market'' None
     [Inl (ExchangeError ''e1''), Inr [], Inl (ExchangeError ''e2''), Inr [], Inr open_order, Inr filled] =
     (Inl (ExchangeError ''e1''),
      [Inr [], Inl (ExchangeError ''e2''), Inr [], Inr open_order, Inr filled],
      [Called Load_markets])"
  "try_body scripted ''BTC/USDT'' ''buy'' 1 ''market'' None
     [Inr [], Inl (ExchangeError ''e2''), Inr [], Inr open_order, Inr filled] =
     (Inl (ExchangeError ''e2''), [Inr [], Inr open_order, Inr filled],
      [Called Load_markets, Called (Create_market_buy_order ''BTC/USDT'' 1)])"
  "try_body scripted ''BTC/USDT'' ''buy'' 1 ''market'' None [Inr [], Inr open_order, Inr filled] =
     (Inr filled, [],
      [Called Load_markets, Called (Create_market_buy_order ''BTC/USDT'' 1),
       Called (Fetch_order (PyStr ''42'') ''BTC/USDT'')])"
  by (simp_all add: try_body_unfold scripted_def status_open_or_partial_def dict_get_def
        dict_item_def open_order_def filled_def)

theorem succeeds_on_third_attempt_witness:
  "place_order_with_retry default_config scripted ''BTC/USDT'' ''buy'' 1 ''market'' None
     [Inl (ExchangeError ''e1''), Inr [], Inl (ExchangeError ''e2''), Inr [], Inr open_order, Inr filled] =
     (Inr filled, [],
      [Print_placing ''buy'' 1 ''BTC/USDT'' ''market'' None,
       Called Load_markets,
       Print_failed 1 (ExchangeError ''e1''), Slept 2,
       Called Load_markets, Called (Create_market_buy_order ''BTC/USDT'' 1),
       Print_failed 2 (ExchangeError ''e2''), Slept 2,
       Called Load_markets, Called (Create_market_buy_order ''BTC/USDT'' 1),
       Called (Fetch_order (PyStr ''42'') ''BTC/USDT'')]) \<and>
   sleeps (events (place_order_with_retry default_config scripted ''BTC/USDT'' ''buy'' 1 ''market'' None
     [Inl (ExchangeError ''e1''), Inr [], Inl (ExchangeError ''e2''), Inr [], Inr open_order, Inr filled])) =
     [2, 2]"
proof -
  have c: "3 \<le> MAX_RETRIES default_config" "portable_delay (RETRY_DELAY default_config)"
    by (simp_all add: default_config_def portable_delay_def)
  from succeeds_on_third_attempt [OF c third_attempt_script] show ?thesis
    by (simp add: default_config_def events_def)
qed

section \<open>The follow-up fetch\<close>

text \<open>
  C6. In an attempt whose \<open>load_markets\<close> returned and whose placement returned an order
  (with an \<open>id\<close>): when the order's status is \<open>open\<close> or \<open>partial\<close>, the attempt makes
  exactly one more call, \<open>fetch_order\<close> with that id and the symbol, and what this call
  does is what the attempt does: what it returns is returned, and what it raises fails
  the attempt. The fetch is not retried on its own: its exception sends the loop into
  the handler, which sleeps (a portable \<open>RETRY_DELAY\<close>) and starts the next attempt
  when one is left, and is the submitter's failure when none is. For any other status the attempt returns the
  placed order and makes no fetch.
\<close>

theorem follow_up_fetch:
  assumes "ex Load_markets s = (Inr m, sl)"
    and "create_order ex symb side amount otype pr sl = (Inr order, sp, ev)"
  shows "(status_open_or_partial order \<and> dict_item order ''id'' = Inr i \<and>
          ex (Fetch_order i symb) sp = (r, sf) \<longrightarrow>
            try_body ex symb side amount otype pr s =
              (r, sf, Called Load_markets # ev @ [Called (Fetch_order i symb)])) \<and>
         (\<not> status_open_or_partial order \<longrightarrow>
            try_body ex symb side amount otype pr s = (Inr order, sp, Called Load_markets # ev)) \<and>
         (\<forall>j sy. Fetch_order j sy \<notin> set (calls ev)) \<and>
         (status_open_or_partial order \<and> dict_item order ''id'' = Inr i \<and>
          ex (Fetch_order i symb) sp = (Inl e, sf) \<and>
          attempt < MAX_RETRIES cfg \<and> portable_delay (RETRY_DELAY cfg) \<longrightarrow>
            retry_loop cfg ex symb side amount otype pr attempt last_exception s =
              (case retry_loop cfg ex symb side amount otype pr (attempt + 1) (Some e) sf of
                 (r', s', ev') \<Rightarrow>
                   (r', s', Called Load_markets # ev @
                      [Called (Fetch_order i symb), Print_failed attempt e,
                       Slept (RETRY_DELAY cfg)] @ ev'))) \<and>
         (status_open_or_partial order \<and> dict_item order ''id'' = Inr i \<and>
          ex (Fetch_order i symb) sp = (Inl e, sf) \<and> attempt = MAX_RETRIES cfg \<longrightarrow>
            retry_loop cfg ex symb side amount otype pr attempt last_exception s =
              (Inl e, sf, Called Load_markets # ev @
                 [Called (Fetch_order i symb), Print_failed attempt e]))"
proof -
  have fetched: "try_body ex symb side amount otype pr s =
      (r, sf, Called Load_markets # ev @ [Called (Fetch_order i symb)])"
    if "status_open_or_partial order" "dict_item order ''id'' = Inr i"
      "ex (Fetch_order i symb) sp = (r, sf)" for r sf
    using assms that by (simp add: try_body_def check_partial_fill_def call_exchange_def)
  have unfetched: "try_body ex symb side amount otype pr s = (Inr order, sp, Called Load_markets # ev)"
    if "\<not> status_open_or_partial order"
    using assms that by (simp add: try_body_def check_partial_fill_def call_exchange_def)
  from create_order_returns [OF assms(2)]
  have nofetch: "\<forall>j sy. Fetch_order j sy \<notin> set (calls ev)" by auto
  have retried: "retry_loop cfg ex symb side amount otype pr attempt last_exception s =
      (case retry_loop cfg ex symb side amount otype pr (attempt + 1) (Some e) sf of
         (r', s', ev') \<Rightarrow>
           (r', s', Called Load_markets # ev @
              [Called (Fetch_order i symb), Print_failed attempt e, Slept (RETRY_DELAY cfg)] @ ev'))"
    if "status_open_or_partial order" "dict_item order ''id'' = Inr i"
      "ex (Fetch_order i symb) sp = (Inl e, sf)" "attempt < MAX_RETRIES cfg" "portable_delay (RETRY_DELAY cfg)"
    using retry_loop_retry [OF that(4) that(5) fetched [OF that(1) that(2) that(3)], of last_exception]
    by simp
  have final: "retry_loop cfg ex symb side amount otype pr attempt last_exception s =
      (Inl e, sf, Called Load_markets # ev @ [Called (Fetch_order i symb), Print_failed attempt e])"
    if "status_open_or_partial order" "dict_item order ''id'' = Inr i"
      "ex (Fetch_order i symb) sp = (Inl e, sf)" "attempt = MAX_RETRIES cfg"
    using retry_loop_final_failure [OF that(4) fetched [OF that(1) that(2) that(3)], of last_exception]
    by simp
  from fetched unfetched nofetch retried final show ?thesis by blast
qed

theorem follow_up_fetch_witness:
  "try_body scripted ''BTC/USDT'' ''buy'' 1 ''market'' None [Inr [], Inr open_order, Inr filled] =
     (Inr filled, [],
      [Called Load_markets, Called (Create_market_buy_order ''BTC/USDT'' 1),
       Called (Fetch_order (PyStr ''42'') ''BTC/USDT'')]) \<and>
   try_body scripted ''BTC/USDT'' ''buy'' 1 ''market'' None [Inr [], Inr filled] =
     (Inr filled, [], [Called Load_markets, Called (Create_market_buy_order ''BTC/USDT'' 1)]) \<and>
   retry_loop default_config scripted ''BTC/USDT'' ''sell'' 1 ''limit'' (Some 5) 1 None
       [Inr [], Inr partial_order, Inl (ExchangeError ''down''), Inr [], Inr filled] =
     (Inr filled, [],
      [Called Load_markets, Called (Create_limit_sell_order ''BTC/USDT'' 1 5),
       Called (Fetch_order (PyStr ''43'') ''BTC/USDT''),
       Print_failed 1 (ExchangeError ''down''), Slept 2,
       Called Load_markets, Called (Create_limit_sell_order ''BTC/USDT'' 1 5)])"
proof -
  have l1: "scripted Load_markets [Inr [], Inr open_order, Inr filled] =
      (Inr [], [Inr open_order, Inr filled])"
    by (simp add: scripted_def)
  have c1: "create_order scripted ''BTC/USDT'' ''buy'' 1 ''market'' None [Inr open_order, Inr filled] =
      (Inr open_order, [Inr filled], [Called (Create_market_buy_order ''BTC/USDT'' 1)])"
    by (simp add: run_unfold)
  have a: "try_body scripted ''BTC/USDT'' ''buy'' 1 ''market'' None [Inr [], Inr open_order, Inr filled] =
     (Inr filled, [],
      [Called Load_markets, Called (Create_market_buy_order ''BTC/USDT'' 1),
       Called (Fetch_order (PyStr ''42'') ''BTC/USDT'')])"
    using follow_up_fetch [OF l1 c1, where i = "PyStr ''42''" and r = "Inr filled" and sf = "[]"]
    by (simp add: run_unfold)
  have l2: "scripted Load_markets [Inr [], Inr filled] = (Inr [], [Inr filled])"
    by (simp add: scripted_def)
  have c2: "create_order scripted ''BTC/USDT'' ''buy'' 1 ''market'' None [Inr filled] =
      (Inr filled, [], [Called (Create_market_buy_order ''BTC/USDT'' 1)])"
    by (simp add: run_unfold)
  have b: "try_body scripted ''BTC/USDT'' ''buy'' 1 ''market'' None [Inr [], Inr filled] =
     (Inr filled, [], [Called Load_markets, Called (Create_market_buy_order ''BTC/USDT'' 1)])"
    using follow_up_fetch [OF l2 c2] by (simp add: run_unfold)
  have l3: "scripted Load_markets
      [Inr [], Inr partial_order, Inl (ExchangeError ''down''), Inr [], Inr filled] =
      (Inr [], [Inr partial_order, Inl (ExchangeError ''down''), Inr [], Inr filled])"
    by (simp add: scripted_def)
  have c3: "create_order scripted ''BTC/USDT'' ''sell'' 1 ''limit'' (Some 5)
      [Inr partial_order, Inl (ExchangeError ''down''), Inr [], Inr filled] =
      (Inr partial_order, [Inl (ExchangeError ''down''), Inr [], Inr filled],
       [Called (Create_limit_sell_order ''BTC/USDT'' 1 5)])"
    by (simp add: run_unfold)
  have t: "try_body scripted ''BTC/USDT'' ''sell'' 1 ''limit'' (Some 5) [Inr [], Inr filled] =
     (Inr filled, [], [Called Load_markets, Called (Create_limit_sell_order ''BTC/USDT'' 1 5)])"
    by (simp add: run_unfold)
  have n: "retry_loop default_config scripted ''BTC/USDT'' ''sell'' 1 ''limit'' (Some 5) 2
      (Some (ExchangeError ''down'')) [Inr [], Inr filled] =
     (Inr filled, [], [Called Load_markets, Called (Create_limit_sell_order ''BTC/USDT'' 1 5)])"
    by (rule retry_loop_success [OF _ t]) (simp add: default_config_def)
  have c: "retry_loop default_config scripted ''BTC/USDT'' ''sell'' 1 ''limit'' (Some 5) 1 None
       [Inr [], Inr partial_order, Inl (ExchangeError ''down''), Inr [], Inr filled] =
     (Inr filled, [],
      [Called Load_markets, Called (Create_limit_sell_order ''BTC/USDT'' 1 5),
       Called (Fetch_order (PyStr ''43'') ''BTC/USDT''),
       Print_failed 1 (ExchangeError ''down''), Slept 2,
       Called Load_markets, Called (Create_limit_sell_order ''BTC/USDT'' 1 5)])"
    using follow_up_fetch [OF l3 c3, where i = "PyStr ''43''" and e = "ExchangeError ''down''"
        and sf = "[Inr [], Inr filled]" and attempt = 1 and cfg = default_config
        and last_exception = None] n
    by (simp add: run_unfold default_config_def portable_delay_def)
  from a b c show ?thesis by simp
qed

section \<open>The webhook's validation of the action\<close>

text \<open>
  C7. The handler maps the action to a side by stripping and lowercasing it, so two
  (ASCII) actions that differ only in case are handled alike. When the side of an
  (ASCII) action is neither \<open>buy\<close> nor \<open>sell\<close> the handler raises the 400 error at once:
  the exchange's state is untouched and no event happened (no exchange call, no sleep,
  no retry), and no background task is added. When it is one of the two, the submitter
  is run with that side, on the normalized (ASCII) symbol. The submitter dispatches on
  \<open>(order_type, side)\<close> to the four operations market-buy, market-sell, limit-buy and
  limit-sell.
\<close>

theorem webhook_validates_action:
  "(isascii (action p) \<and>
    str_lower (str_strip (action p)) \<noteq> ''buy'' \<and> str_lower (str_strip (action p)) \<noteq> ''sell'' \<longrightarrow>
      webhook cfg ex p s = (HTTPException 400 ''action must be BUY or SELL'', s, [], [])) \<and>
   (isascii (symbol p) \<and>
    (str_lower (str_strip (action p)) = ''buy'' \<or> str_lower (str_strip (action p)) = ''sell'') \<longrightarrow>
      webhook cfg ex p s =
        (case place_order_with_retry cfg ex (normalize_symbol (symbol p))
                (str_lower (str_strip (action p))) (quantity p) (order_type p) (price p) s of
           (Inl e, s', ev) \<Rightarrow>
             (HTTPException 500 (''Order placement failed: '' @ str_exn e), s', ev, [])
         | (Inr order, s', ev) \<Rightarrow>
             (Response_ok (dict_get order ''id'') order, s', ev,
              [Log_order order, Log_order_to_gsheet order, Notify_remote order]))) \<and>
   (isascii a \<and> isascii b \<and> str_lower a = str_lower b \<longrightarrow>
      webhook cfg ex (p\<lparr>action := a\<rparr>) s = webhook cfg ex (p\<lparr>action := b\<rparr>) s) \<and>
   create_order ex symb ''buy'' amount ''market'' pr s =
     call_exchange ex (Create_market_buy_order symb amount) s \<and>
   create_order ex symb ''sell'' amount ''market'' pr s =
     call_exchange ex (Create_market_sell_order symb amount) s \<and>
   create_order ex symb ''buy'' amount ''limit'' (Some q) s =
     call_exchange ex (Create_limit_buy_order symb amount q) s \<and>
   create_order ex symb ''sell'' amount ''limit'' (Some q) s =
     call_exchange ex (Create_limit_sell_order symb amount q) s"
proof -
  have rejected: "webhook cfg ex p s = (HTTPException 400 ''action must be BUY or SELL'', s, [], [])"
    if "isascii (action p) \<and>
      str_lower (str_strip (action p)) \<noteq> ''buy'' \<and> str_lower (str_strip (action p)) \<noteq> ''sell''"
    using that by (simp add: webhook_def Let_def)
  have accepted: "webhook cfg ex p s =
        (case place_order_with_retry cfg ex (normalize_symbol (symbol p))
                (str_lower (str_strip (action p))) (quantity p) (order_type p) (price p) s of
           (Inl e, s', ev) \<Rightarrow>
             (HTTPException 500 (''Order placement failed: '' @ str_exn e), s', ev, [])
         | (Inr order, s', ev) \<Rightarrow>
             (Response_ok (dict_get order ''id'') order, s', ev,
              [Log_order order, Log_order_to_gsheet order, Notify_remote order]))"
    if h: "isascii (symbol p) \<and>
      (str_lower (str_strip (action p)) = ''buy'' \<or> str_lower (str_strip (action p)) = ''sell'')"
  proof -
    from h have "str_lower (str_strip (action p)) = ''buy'' \<or>
        str_lower (str_strip (action p)) = ''sell''" by (rule conjunct2)
    then show ?thesis by (rule webhook_accepted [OF refl])
  qed
  have insensitive: "webhook cfg ex (p\<lparr>action := a\<rparr>) s = webhook cfg ex (p\<lparr>action := b\<rparr>) s"
    if h: "isascii a \<and> isascii b \<and> str_lower a = str_lower b"
  proof -
    from h have "str_lower a = str_lower b" by blast
    then have "str_lower (str_strip a) = str_lower (str_strip b)"
      by (simp add: str_lower_strip)
    then show ?thesis by (simp add: webhook_def Let_def)
  qed
  have dispatch:
    "create_order ex symb ''buy'' amount ''market'' pr s =
       call_exchange ex (Create_market_buy_order symb amount) s"
    "create_order ex symb ''sell'' amount ''market'' pr s =
       call_exchange ex (Create_market_sell_order symb amount) s"
    "create_order ex symb ''buy'' amount ''limit'' (Some q) s =
       call_exchange ex (Create_limit_buy_order symb amount q) s"
    "create_order ex symb ''sell'' amount ''limit'' (Some q) s =
       call_exchange ex (Create_limit_sell_order symb amount q) s"
    by (simp_all add: create_order_def)
  show ?thesis
    by (intro conjI impI dispatch) (erule rejected, erule accepted, erule insensitive)
qed

theorem webhook_validates_action_witness:
  "webhook default_config always_fills
     \<lparr>symbol = ''btc_usdt'', action = ''hold'', quantity = 1, order_type = ''market'',
      price = None, client_id = None\<rparr> () =
     (HTTPException 400 ''action must be BUY or SELL'', (), [], []) \<and>
   webhook default_config always_fills
     \<lparr>symbol = ''btc_usdt'', action = ''Sell'', quantity = 1, order_type = ''market'',
      price = None, client_id = None\<rparr> () =
     (Response_ok (PyStr ''42'') filled, (),
      [Print_placing ''sell'' 1 ''BTC/USDT'' ''market'' None, Called Load_markets,
       Called (Create_market_sell_order ''BTC/USDT'' 1)],
      [Log_order filled, Log_order_to_gsheet filled, Notify_remote filled]) \<and>
   webhook default_config always_fills
     (\<lparr>symbol = ''btc_usdt'', action = ''x'', quantity = 1, order_type = ''market'',
       price = None, client_id = None\<rparr>\<lparr>action := ''SELL''\<rparr>) () =
   webhook default_config always_fills
     (\<lparr>symbol = ''btc_usdt'', action = ''x'', quantity = 1, order_type = ''market'',
       price = None, client_id = None\<rparr>\<lparr>action := ''sell''\<rparr>) ()"
proof -
  have a: "str_lower (str_strip ''hold'') = ''hold''" "str_lower (str_strip ''Sell'') = ''sell''"
    by code_simp+
  have e: "isascii ''SELL'' \<and> isascii ''sell'' \<and> str_lower ''SELL'' = str_lower ''sell''"
    by code_simp
  have k: "isascii ''hold''" "isascii ''btc_usdt''" by (simp_all add: isascii_def)
  note insensitive = webhook_validates_action [where cfg = default_config and ex = always_fills
      and s = "()" and a = "''SELL''" and b = "''sell''" and
      p = "\<lparr>symbol = ''btc_usdt'', action = ''x'', quantity = 1, order_type = ''market'',
            price = None, client_id = None\<rparr>",
      THEN conjunct2, THEN conjunct2, THEN conjunct1, rule_format, OF e]
  have i: "dict_get filled ''id'' = PyStr ''42''" by (simp add: dict_get_def filled_def)
  note rejected = webhook_validates_action [where cfg = default_config and ex = always_fills
      and s = "()" and
      p = "\<lparr>symbol = ''btc_usdt'', action = ''hold'', quantity = 1, order_type = ''market'',
            price = None, client_id = None\<rparr>", THEN conjunct1]
  note accepted = webhook_validates_action [where cfg = default_config and ex = always_fills
      and s = "()" and
      p = "\<lparr>symbol = ''btc_usdt'', action = ''Sell'', quantity = 1, order_type = ''market'',
            price = None, client_id = None\<rparr>", THEN conjunct2, THEN conjunct1]
  from rejected accepted a i k normalize_symbol_example market_order_filled
  have "webhook default_config always_fills
     \<lparr>symbol = ''btc_usdt'', action = ''hold'', quantity = 1, order_type = ''market'',
      price = None, client_id = None\<rparr> () =
     (HTTPException 400 ''action must be BUY or SELL'', (), [], []) \<and>
   webhook default_config always_fills
     \<lparr>symbol = ''btc_usdt'', action = ''Sell'', quantity = 1, order_type = ''market'',
      price = None, client_id = None\<rparr> () =
     (Response_ok (PyStr ''42'') filled, (),
      [Print_placing ''sell'' 1 ''BTC/USDT'' ''market'' None, Called Load_markets,
       Called (Create_market_sell_order ''BTC/USDT'' 1)],
      [Log_order filled, Log_order_to_gsheet filled, Notify_remote filled])"
    by simp
  with insensitive show ?thesis by (intro conjI) (erule conjunct1, erule conjunct2, assumption)
qed

text \<open>
  C9. An action that is a case variant of \<open>buy\<close> or \<open>sell\<close> with whitespace before and
  after it is stripped to that variant: the handler does not raise the 400 error, and
  runs the submitter with the lowercased variant as the side.
\<close>

theorem webhook_strips_action:
  assumes "\<forall>c \<in> set pre. isspace c" and "\<forall>c \<in> set post. isspace c"
    and "str_lower v = ''buy'' \<or> str_lower v = ''sell''"
    and "action p = pre @ v @ post"
  shows "str_lower (str_strip (action p)) = str_lower v \<and>
     webhook cfg ex p s =
       (case place_order_with_retry cfg ex (normalize_symbol (symbol p)) (str_lower v)
               (quantity p) (order_type p) (price p) s of
          (Inl e, s', ev) \<Rightarrow>
            (HTTPException 500 (''Order placement failed: '' @ str_exn e), s', ev, [])
        | (Inr order, s', ev) \<Rightarrow>
            (Response_ok (dict_get order ''id'') order, s', ev,
             [Log_order order, Log_order_to_gsheet order, Notify_remote order])) \<and>
     (\<forall>d. fst (webhook cfg ex p s) \<noteq> HTTPException 400 d)"
proof -
  from lower_not_space [OF assms(3)]
  have "str_strip (pre @ v @ post) = v"
    by (intro str_strip_padded assms(1,2)) simp_all
  with assms(4) have side: "str_lower (str_strip (action p)) = str_lower v" by simp
  note w = webhook_accepted [OF side assms(3), of cfg ex s]
  then have "\<forall>d. fst (webhook cfg ex p s) \<noteq> HTTPException 400 d"
    by (simp split: prod.splits sum.splits)
  with side w show ?thesis by simp
qed

theorem webhook_strips_action_witness:
  "webhook default_config always_fills
     \<lparr>symbol = ''btc_usdt'', action = '' BUY '', quantity = 1, order_type = ''market'',
      price = None, client_id = None\<rparr> () =
     (Response_ok (PyStr ''42'') filled, (),
      [Print_placing ''buy'' 1 ''BTC/USDT'' ''market'' None, Called Load_markets,
       Called (Create_market_buy_order ''BTC/USDT'' 1)],
      [Log_order filled, Log_order_to_gsheet filled, Notify_remote filled])"
proof -
  have sp: "\<forall>c \<in> set '' ''. isspace c" by (simp add: isspace_def)
  have v: "str_lower ''BUY'' = ''buy'' \<or> str_lower ''BUY'' = ''sell''" by code_simp
  have l: "str_lower ''BUY'' = ''buy''" by code_simp
  have a: "action \<lparr>symbol = ''btc_usdt'', action = '' BUY '', quantity = 1, order_type = ''market'',
      price = None, client_id = None\<rparr> = '' '' @ ''BUY'' @ '' ''" by simp
  have i: "dict_get filled ''id'' = PyStr ''42''" by (simp add: dict_get_def filled_def)
  from webhook_strips_action [OF sp sp v a, of default_config always_fills "()"]
    l i normalize_symbol_example market_order_filled
  show ?thesis by simp
qed

section \<open>The side is not validated by the submitter\<close>

text \<open>
  C10. The submitter compares the side with \<open>buy\<close> only. For any other side, whatever
  the string, a market order calls \<open>create_market_sell_order\<close> and a limit order with a
  price calls \<open>create_limit_sell_order\<close>: once \<open>load_markets\<close> has returned, that is the
  second call of the submission.
\<close>

theorem side_is_not_validated:
  assumes "side \<noteq> ''buy''"
  shows "create_order ex symb side amount ''market'' pr s =
           call_exchange ex (Create_market_sell_order symb amount) s \<and>
         create_order ex symb side amount ''limit'' (Some p) s =
           call_exchange ex (Create_limit_sell_order symb amount p) s \<and>
         (1 \<le> MAX_RETRIES cfg \<and> ex Load_markets s = (Inr m, sl) \<longrightarrow>
            take 2 (calls (events (place_order_with_retry cfg ex symb side amount ''market'' pr s))) =
              [Load_markets, Create_market_sell_order symb amount] \<and>
            take 2 (calls (events (place_order_with_retry cfg ex symb side amount ''limit'' (Some p) s))) =
              [Load_markets, Create_limit_sell_order symb amount p])"
proof -
  have a: "create_order ex symb side amount ''market'' pr s' =
      call_exchange ex (Create_market_sell_order symb amount) s'" for s'
    using assms by (simp add: create_order_def)
  have b: "create_order ex symb side amount ''limit'' (Some p) s' =
      call_exchange ex (Create_limit_sell_order symb amount p) s'" for s'
    using assms by (simp add: create_order_def)
  have c: "take 2 (calls (events (place_order_with_retry cfg ex symb side amount ''market'' pr s))) =
      [Load_markets, Create_market_sell_order symb amount]"
    if "1 \<le> MAX_RETRIES cfg" "ex Load_markets s = (Inr m, sl)"
    using that(1) try_body_first_calls [OF that(2) a] by (rule place_order_first_calls)
  have d: "take 2 (calls (events (place_order_with_retry cfg ex symb side amount ''limit'' (Some p) s))) =
      [Load_markets, Create_limit_sell_order symb amount p]"
    if "1 \<le> MAX_RETRIES cfg" "ex Load_markets s = (Inr m, sl)"
    using that(1) try_body_first_calls [OF that(2) b] by (rule place_order_first_calls)
  from a b c d show ?thesis by blast
qed

theorem side_is_not_validated_witness:
  "take 2 (calls (events (place_order_with_retry default_config always_fills ''BTC/USDT'' ''hold'' 1
      ''market'' None ()))) = [Load_markets, Create_market_sell_order ''BTC/USDT'' 1] \<and>
   take 2 (calls (events (place_order_with_retry default_config always_fills ''BTC/USDT'' ''BUY'' 1
      ''limit'' (Some 7) ()))) = [Load_markets, Create_limit_sell_order ''BTC/USDT'' 1 7]"
proof -
  have h: "''hold'' \<noteq> ''buy''" "''BUY'' \<noteq> ''buy''" by simp_all
  have c: "1 \<le> MAX_RETRIES default_config" by (simp add: default_config_def)
  have l: "always_fills Load_markets () = (Inr filled, ())" by (simp add: always_fills_def)
  from side_is_not_validated [OF h(1), where cfg = default_config and ex = always_fills and s = "()"
      and m = filled and sl = "()" and symb = "''BTC/USDT''" and amount = 1 and pr = None and p = 7]
    side_is_not_validated [OF h(2), where cfg = default_config and ex = always_fills and s = "()"
      and m = filled and sl = "()" and symb = "''BTC/USDT''" and amount = 1 and pr = None and p = 7]
    c l
  show ?thesis by simp
qed

section \<open>Unsupported order types and missing prices\<close>

text \<open>
  C1, as the code has it. For an \<open>order_type\<close> that is neither \<open>market\<close> nor \<open>limit\<close>, with
  \<open>N = MAX_RETRIES\<close> at least 1 and a portable \<open>RETRY_DELAY\<close>, no order is placed:
  each attempt calls \<open>load_markets\<close> and nothing else, and raises what \<open>load_markets\<close>
  raises or, when it returns, the \<open>ValueError\<close> \<open>Unsupported order type\<close>. The
  \<open>except Exception\<close> of the loop catches it like any other exception, so the submitter
  makes \<open>N\<close> attempts, prints their failures, sleeps \<open>N - 1\<close> times and then raises the
  exception of the last attempt. The webhook turns the failure into a 500 response
  whose detail carries that exception.
\<close>

theorem unsupported_order_type_is_retried:
  assumes "otype \<noteq> ''market''" and "otype \<noteq> ''limit''"
    and "1 \<le> MAX_RETRIES cfg" and "portable_delay (RETRY_DELAY cfg)"
  shows "outcome (place_order_with_retry cfg ex symb side amount otype pr s) =
       Inl (attempt_error ex (ValueError ''Unsupported order type'')
              (refreshed ex (nat (MAX_RETRIES cfg) - 1) s)) \<and>
     failures (events (place_order_with_retry cfg ex symb side amount otype pr s)) =
       map (\<lambda>k. (1 + int k,
               attempt_error ex (ValueError ''Unsupported order type'') (refreshed ex k s)))
         [0..<nat (MAX_RETRIES cfg)] \<and>
     calls (events (place_order_with_retry cfg ex symb side amount otype pr s)) =
       replicate (nat (MAX_RETRIES cfg)) Load_markets \<and>
     sleeps (events (place_order_with_retry cfg ex symb side amount otype pr s)) =
       replicate (nat (MAX_RETRIES cfg) - 1) (RETRY_DELAY cfg) \<and>
     (order_type p = otype \<and>
      (str_lower (str_strip (action p)) = ''buy'' \<or> str_lower (str_strip (action p)) = ''sell'') \<longrightarrow>
        fst (webhook cfg ex p s) =
          HTTPException 500 (''Order placement failed: '' @
            str_exn (attempt_error ex (ValueError ''Unsupported order type'')
                       (refreshed ex (nat (MAX_RETRIES cfg) - 1) s))))"
proof -
  have v: "create_order ex sy sd am otype q s' = (Inl (ValueError ''Unsupported order type''), s', [])"
    for sy sd am q s'
    using assms(1,2) by (simp add: create_order_def)
  note sub = place_order_validation_error [OF v assms(3,4)]
  have answered: "order_type p = otype \<and>
      (str_lower (str_strip (action p)) = ''buy'' \<or> str_lower (str_strip (action p)) = ''sell'') \<longrightarrow>
        fst (webhook cfg ex p s) =
          HTTPException 500 (''Order placement failed: '' @
            str_exn (attempt_error ex (ValueError ''Unsupported order type'')
                       (refreshed ex (nat (MAX_RETRIES cfg) - 1) s)))"
  proof (rule impI)
    assume h: "order_type p = otype \<and>
      (str_lower (str_strip (action p)) = ''buy'' \<or> str_lower (str_strip (action p)) = ''sell'')"
    then have o: "order_type p = otype"
      and a: "str_lower (str_strip (action p)) = ''buy'' \<or> str_lower (str_strip (action p)) = ''sell''"
      by blast+
    from sub [of "normalize_symbol (symbol p)" "str_lower (str_strip (action p))" "quantity p"
        "price p" s, THEN conjunct1]
    have "outcome (place_order_with_retry cfg ex (normalize_symbol (symbol p))
           (str_lower (str_strip (action p))) (quantity p) (order_type p) (price p) s) =
        Inl (attempt_error ex (ValueError ''Unsupported order type'')
               (refreshed ex (nat (MAX_RETRIES cfg) - 1) s))"
      unfolding o .
    with a show "fst (webhook cfg ex p s) =
          HTTPException 500 (''Order placement failed: '' @
            str_exn (attempt_error ex (ValueError ''Unsupported order type'')
                       (refreshed ex (nat (MAX_RETRIES cfg) - 1) s)))"
      by (rule webhook_failure)
  qed
  note s0 = sub [of symb side amount pr s]
  show ?thesis
    by (intro conjI answered s0 [THEN conjunct1] s0 [THEN conjunct2, THEN conjunct1]
          s0 [THEN conjunct2, THEN conjunct2, THEN conjunct1]
          s0 [THEN conjunct2, THEN conjunct2, THEN conjunct2])
qed

lemma refreshed_script:
  "attempt_error scripted v (refreshed scripted (nat (MAX_RETRIES default_config) - 1)
      [Inl (ExchangeError ''down''), Inr [], Inr []]) = v"
  "map (\<lambda>k. (1 + int k,
          attempt_error scripted v (refreshed scripted k [Inl (ExchangeError ''down''), Inr [], Inr []])))
     [0..<nat (MAX_RETRIES default_config)] =
   [(1, ExchangeError ''down''), (2, v), (3, v)]"
  by (simp_all add: default_config_def eval_nat_numeral attempt_error_def scripted_def
        del: upt_Suc add: upt_rec)

theorem unsupported_order_type_is_retried_witness:
  "outcome (place_order_with_retry default_config scripted ''ETH/USDT'' ''sell'' 2 ''stop''
      (Some 9) [Inl (ExchangeError ''down''), Inr [], Inr []]) =
      Inl (ValueError ''Unsupported order type'') \<and>
   failures (events (place_order_with_retry default_config scripted ''ETH/USDT'' ''sell'' 2 ''stop''
      (Some 9) [Inl (ExchangeError ''down''), Inr [], Inr []])) =
      [(1, ExchangeError ''down''), (2, ValueError ''Unsupported order type''),
       (3, ValueError ''Unsupported order type'')] \<and>
   calls (events (place_order_with_retry default_config scripted ''ETH/USDT'' ''sell'' 2 ''stop''
      (Some 9) [Inl (ExchangeError ''down''), Inr [], Inr []])) =
      [Load_markets, Load_markets, Load_markets] \<and>
   sleeps (events (place_order_with_retry default_config scripted ''ETH/USDT'' ''sell'' 2 ''stop''
      (Some 9) [Inl (ExchangeError ''down''), Inr [], Inr []])) = [2, 2] \<and>
   fst (webhook default_config scripted
      \<lparr>symbol = ''ETH/USDT'', action = ''sell'', quantity = 2, order_type = ''stop'',
       price = Some 9, client_id = None\<rparr> [Inl (ExchangeError ''down''), Inr [], Inr []]) =
     HTTPException 500 ''Order placement failed: Unsupported order type''"
proof -
  have o: "''stop'' \<noteq> ''market''" "''stop'' \<noteq> ''limit''" by simp_all
  have c: "1 \<le> MAX_RETRIES default_config" "portable_delay (RETRY_DELAY default_config)"
    by (simp_all add: default_config_def portable_delay_def)
  have a: "str_lower (str_strip ''sell'') = ''sell''" by code_simp
  from unsupported_order_type_is_retried [OF o c, where ex = scripted
      and s = "[Inl (ExchangeError ''down''), Inr [], Inr []]"
      and symb = "''ETH/USDT''" and side = "''sell''" and amount = 2 and pr = "Some 9"
      and p = "\<lparr>symbol = ''ETH/USDT'', action = ''sell'', quantity = 2, order_type = ''stop'',
                 price = Some 9, client_id = None\<rparr>"]
    a three_load_markets refreshed_script [of "ValueError ''Unsupported order type''"]
  show ?thesis by simp
qed

text \<open>
  C1 as stated fails: with the default configuration and an exchange that answers every
  call, the order type \<open>stop\<close> is tried three times, with two sleeps of two seconds, and
  the webhook answers 500.
\<close>

theorem unsupported_order_type_counterexample:
  "place_order_with_retry default_config always_fills ''BTC/USDT'' ''buy'' 1 ''stop'' None () =
     (Inl (ValueError ''Unsupported order type''), (),
      [Print_placing ''buy'' 1 ''BTC/USDT'' ''stop'' None,
       Called Load_markets, Print_failed 1 (ValueError ''Unsupported order type''), Slept 2,
       Called Load_markets, Print_failed 2 (ValueError ''Unsupported order type''), Slept 2,
       Called Load_markets, Print_failed 3 (ValueError ''Unsupported order type'')]) \<and>
   fst (webhook default_config always_fills
      \<lparr>symbol = ''btc_usdt'', action = ''buy'', quantity = 1, order_type = ''stop'',
       price = None, client_id = None\<rparr> ()) =
     HTTPException 500 ''Order placement failed: Unsupported order type''"
proof -
  have r: "place_order_with_retry default_config always_fills ''BTC/USDT'' ''buy'' 1 ''stop'' None () =
     (Inl (ValueError ''Unsupported order type''), (),
      [Print_placing ''buy'' 1 ''BTC/USDT'' ''stop'' None,
       Called Load_markets, Print_failed 1 (ValueError ''Unsupported order type''), Slept 2,
       Called Load_markets, Print_failed 2 (ValueError ''Unsupported order type''), Slept 2,
       Called Load_markets, Print_failed 3 (ValueError ''Unsupported order type'')])"
    by (rule validation_error_run) (simp add: create_order_def)
  have a: "str_lower (str_strip ''buy'') = ''buy''" by code_simp
  from r a normalize_symbol_example show ?thesis
    by (simp add: webhook_def Let_def)
qed

text \<open>
  C2, as the code has it. For a limit order without a price, with \<open>N = MAX_RETRIES\<close> at least
  1 and a portable \<open>RETRY_DELAY\<close>, no order is placed and nothing is fetched, but
  the exchange is called: each attempt calls \<open>load_markets\<close> and nothing else, and raises
  what \<open>load_markets\<close> raises or, when it returns, the \<open>ValueError\<close>
  \<open>Missing price for limit order\<close>, which the loop catches like any other exception. The
  submitter makes \<open>N\<close> attempts, prints their failures, sleeps \<open>N - 1\<close> times and then
  raises the exception of the last attempt.
\<close>

theorem missing_price_is_retried:
  assumes "1 \<le> MAX_RETRIES cfg" and "portable_delay (RETRY_DELAY cfg)"
  shows "outcome (place_order_with_retry cfg ex symb side amount ''limit'' None s) =
       Inl (attempt_error ex (ValueError ''Missing price for limit order'')
              (refreshed ex (nat (MAX_RETRIES cfg) - 1) s)) \<and>
     failures (events (place_order_with_retry cfg ex symb side amount ''limit'' None s)) =
       map (\<lambda>k. (1 + int k,
               attempt_error ex (ValueError ''Missing price for limit order'') (refreshed ex k s)))
         [0..<nat (MAX_RETRIES cfg)] \<and>
     calls (events (place_order_with_retry cfg ex symb side amount ''limit'' None s)) =
       replicate (nat (MAX_RETRIES cfg)) Load_markets \<and>
     sleeps (events (place_order_with_retry cfg ex symb side amount ''limit'' None s)) =
       replicate (nat (MAX_RETRIES cfg) - 1) (RETRY_DELAY cfg)"
proof -
  have "create_order ex symb side amount ''limit'' None s' =
      (Inl (ValueError ''Missing price for limit order''), s', [])" for s'
    by (simp add: create_order_def)
  from place_order_validation_error [OF this assms] show ?thesis .
qed

theorem missing_price_is_retried_witness:
  "outcome (place_order_with_retry default_config scripted ''ETH/USDT'' ''sell'' 2 ''limit''
      None [Inl (ExchangeError ''down''), Inr [], Inr []]) =
      Inl (ValueError ''Missing price for limit order'') \<and>
   failures (events (place_order_with_retry default_config scripted ''ETH/USDT'' ''sell'' 2 ''limit''
      None [Inl (ExchangeError ''down''), Inr [], Inr []])) =
      [(1, ExchangeError ''down''), (2, ValueError ''Missing price for limit order''),
       (3, ValueError ''Missing price for limit order'')] \<and>
   calls (events (place_order_with_retry default_config scripted ''ETH/USDT'' ''sell'' 2 ''limit''
      None [Inl (ExchangeError ''down''), Inr [], Inr []])) =
      [Load_markets, Load_markets, Load_markets] \<and>
   sleeps (events (place_order_with_retry default_config scripted ''ETH/USDT'' ''sell'' 2 ''limit''
      None [Inl (ExchangeError ''down''), Inr [], Inr []])) = [2, 2]"
proof -
  have c: "1 \<le> MAX_RETRIES default_config" "portable_delay (RETRY_DELAY default_config)"
    by (simp_all add: default_config_def portable_delay_def)
  from missing_price_is_retried [OF c, of scripted "''ETH/USDT''" "''sell''" 2
      "[Inl (ExchangeError ''down''), Inr [], Inr []]"]
    three_load_markets refreshed_script [of "ValueError ''Missing price for limit order''"]
  show ?thesis by simp
qed

text \<open>
  C2 as stated fails: with the default configuration and an exchange that answers every
  call, a limit order without a price calls the exchange three times and sleeps twice
  before the missing-price error leaves the submitter.
\<close>

theorem missing_price_counterexample:
  "place_order_with_retry default_config always_fills ''BTC/USDT'' ''buy'' 1 ''limit'' None () =
     (Inl (ValueError ''Missing price for limit order''), (),
      [Print_placing ''buy'' 1 ''BTC/USDT'' ''limit'' None,
       Called Load_markets, Print_failed 1 (ValueError ''Missing price for limit order''), Slept 2,
       Called Load_markets, Print_failed 2 (ValueError ''Missing price for limit order''), Slept 2,
       Called Load_markets, Print_failed 3 (ValueError ''Missing price for limit order'')])"
  by (rule validation_error_run) (simp add: create_order_def)

end
